theory Spec2Isabelle
  imports Main "HOL-Library.Sublist"
begin

section \<open>JavaScript values\<close>

text \<open>
  Both components are functions from a props object to a React element. Props arrive
  untyped at run time, so a property value is any JavaScript value: a primitive, a plain
  object (an ordered list of key/value pairs), an array, an opaque renderable node supplied
  by the host, or a React element described by its type and its config object (JSX children
  are the \<open>children\<close> entry of the config, as the JSX runtime passes them).
  A number is an integer or \<open>NaN\<close>. Every numeric option of the two schemas is an integer;
  \<open>NaN\<close> is the one number that is falsy without being zero. Fractions and the infinities
  are left out: they are truthy and print with a point, an exponent or as \<open>Infinity\<close>, so
  they read no entry of any table below, as an integer outside the tables does.
\<close>

datatype 'a jsval =
    Undefined
  | Null
  | Bool bool
  | Num int
  | NaN
  | Str string
  | Obj "(string \<times> 'a jsval) list"
  | Arr "'a jsval list"
  | Node 'a
  | Element string "(string \<times> 'a jsval) list"

type_synonym 'a obj = "(string \<times> 'a jsval) list"

datatype error = TypeError

text \<open>
  JavaScript truthiness: \<open>undefined\<close>, \<open>null\<close>, \<open>false\<close>, \<open>0\<close>, \<open>NaN\<close> and \<open>""\<close> are falsy.
\<close>

fun truthy :: "'a jsval \<Rightarrow> bool" where
  "truthy Undefined = False"
| "truthy Null = False"
| "truthy (Bool b) = b"
| "truthy (Num n) = (n \<noteq> 0)"
| "truthy NaN = False"
| "truthy (Str s) = (s \<noteq> [])"
| "truthy _ = True"

text \<open>
  Property keys are strings: \<open>table[v]\<close> converts \<open>v\<close> with ToString first, and the
  conversion can throw. Integers print in decimal (JavaScript switches to exponent
  notation from \<open>10^21\<close> on, far from any key of the tables below). A plain object prints
  as \<open>[object Object]\<close> through the \<open>toString\<close> it inherits; an object with an own
  \<open>toString\<close> entry hides that method, and since no value of this model is callable the
  conversion finds no method that returns a primitive and throws a TypeError. An array
  prints its elements joined by commas, \<open>null\<close> and \<open>undefined\<close> elements as the empty
  string, and throws where an element does. Host nodes and React elements are plain
  objects without an own \<open>toString\<close>.
\<close>

definition digit_char :: "nat \<Rightarrow> char" where
  "digit_char d = ''0123456789'' ! d"

fun digits :: "nat \<Rightarrow> string" where
  "digits n = (if n < 10 then [digit_char n] else digits (n div 10) @ [digit_char (n mod 10)])"

declare digits.simps [simp del]

definition NumberToString :: "int \<Rightarrow> string" where
  "NumberToString n = (if n < 0 then CHR ''-'' # digits (nat (- n)) else digits (nat n))"

fun join :: "string \<Rightarrow> string list \<Rightarrow> string" where
  "join sep [] = []"
| "join sep [s] = s"
| "join sep (s # t # rest) = s @ sep @ join sep (t # rest)"

text \<open>Evaluating a list of results from left to right: the first error is the outcome.\<close>

fun collect :: "(error + 'b) list \<Rightarrow> error + 'b list" where
  "collect [] = Inr []"
| "collect (Inl e # rs) = Inl e"
| "collect (Inr x # rs) = (case collect rs of Inl e \<Rightarrow> Inl e | Inr xs \<Rightarrow> Inr (x # xs))"

fun ToString :: "'a jsval \<Rightarrow> error + string" where
  "ToString Undefined = Inr ''undefined''"
| "ToString Null = Inr ''null''"
| "ToString (Bool b) = Inr (if b then ''true'' else ''false'')"
| "ToString (Num n) = Inr (NumberToString n)"
| "ToString NaN = Inr ''NaN''"
| "ToString (Str s) = Inr s"
| "ToString (Obj kvs) =
     (if map_of kvs ''toString'' = None then Inr ''[object Object]'' else Inl TypeError)"
| "ToString (Arr xs) =
     (case collect (map (\<lambda>x. if x = Undefined \<or> x = Null then Inr [] else ToString x) xs) of
        Inl e \<Rightarrow> Inl e
      | Inr ss \<Rightarrow> Inr (join '','' ss))"
| "ToString (Node a) = Inr ''[object Object]''"
| "ToString (Element t cfg) = Inr ''[object Object]''"

subsection \<open>Objects\<close>

text \<open>
  \<open>obj_get\<close> is property access (a missing key reads as \<open>undefined\<close>); \<open>obj_set\<close> is
  assignment (an existing key keeps its position, a new key is appended); \<open>obj_spread\<close> is
  \<open>{...target, ...source}\<close>; \<open>obj_rest\<close> is the rest pattern of a destructuring
  \<open>let {a, b, ...rest} = props\<close>.
\<close>

definition obj_get :: "'a obj \<Rightarrow> string \<Rightarrow> 'a jsval" where
  "obj_get ob k = (case map_of ob k of None \<Rightarrow> Undefined | Some v \<Rightarrow> v)"

fun obj_set :: "string \<Rightarrow> 'a jsval \<Rightarrow> 'a obj \<Rightarrow> 'a obj" where
  "obj_set k v [] = [(k, v)]"
| "obj_set k v ((k', v') # ob) = (if k' = k then (k, v) # ob else (k', v') # obj_set k v ob)"

definition obj_spread :: "'a obj \<Rightarrow> 'a obj \<Rightarrow> 'a obj" where
  "obj_spread target source = foldl (\<lambda>ob (k, v). obj_set k v ob) target source"

definition obj_rest :: "string list \<Rightarrow> 'a obj \<Rightarrow> 'a obj" where
  "obj_rest names props = filter (\<lambda>(k, v). k \<notin> set names) props"

subsection \<open>Arrays\<close>

text \<open>
  \<open>Array.prototype.filter\<close> with a callback that receives the element and its index: one
  pass from index 0, keeping the elements the callback accepts.
\<close>

fun filter_from :: "nat \<Rightarrow> ('b \<Rightarrow> nat \<Rightarrow> bool) \<Rightarrow> 'b list \<Rightarrow> 'b list" where
  "filter_from i f [] = []"
| "filter_from i f (x # xs) =
     (if f x i then x # filter_from (Suc i) f xs else filter_from (Suc i) f xs)"

definition array_filter :: "('b \<Rightarrow> nat \<Rightarrow> bool) \<Rightarrow> 'b list \<Rightarrow> 'b list" where
  "array_filter f xs = filter_from 0 f xs"

section \<open>The class helpers: clsx and cva\<close>

text \<open>
  Modelled from the spec: \<open>clsx\<close> is an imported helper whose code is not among the
  repository's sources. It joins its non-empty string arguments with single spaces and
  skips \<open>undefined\<close>. At every call site of the two components the arguments are string
  literals, table lookups (a string or \<open>undefined\<close>) or the string \<open>cva\<close> returns, so an
  argument is a \<open>string option\<close>, \<open>None\<close> for \<open>undefined\<close>.
\<close>

definition clsx :: "string option list \<Rightarrow> string" where
  "clsx args =
     join '' '' (concat (map (\<lambda>a. case a of None \<Rightarrow> [] | Some s \<Rightarrow> if s = [] then [] else [s])
                           args))"

text \<open>
  Modelled from the spec: \<open>cva\<close> (class-variance-authority) is an imported helper whose
  code is not among the repository's sources. The spec describes it as a static lookup
  from a parameter value to a style token, with a declared default that applies when the
  parameter is omitted and a lookup that resolves to no additional class on an
  unrecognized key. The definitions follow that, in the shape of the library:
  \<open>cva base config\<close> returns a function of a props object; for each variant of the config,
  in order, \<open>null\<close> contributes nothing; otherwise the key is
  \<open>falsyToString prop || falsyToString default\<close>, so the default is taken when the property
  is falsy after \<open>falsyToString\<close> (\<open>undefined\<close>, \<open>NaN\<close>, the empty string), and the class is
  the table's entry at that key, \<open>undefined\<close> when there is none; reading the table converts
  the key to a string and throws where that conversion does; the result is \<open>clsx\<close> of the
  base and these classes. Both call sites pass the variant properties only, so the
  \<open>class\<close> and \<open>className\<close> properties \<open>cva\<close> would append are absent.

  A table is an object literal, read with \<open>map_of\<close>. A key that only \<open>Object.prototype\<close>
  has (\<open>toString\<close>, \<open>constructor\<close>) reads as a function there, and \<open>__proto__\<close> as an object
  without enumerable keys; \<open>clsx\<close> skips both as it skips \<open>undefined\<close>, so a miss is the
  same for the class that results.
\<close>

fun falsyToString :: "'a jsval \<Rightarrow> 'a jsval" where
  "falsyToString (Bool b) = Str (if b then ''true'' else ''false'')"
| "falsyToString (Num n) = (if n = 0 then Str ''0'' else Num n)"
| "falsyToString v = v"

definition getVariantClassName ::
  "'a obj \<Rightarrow> 'a obj \<Rightarrow> string \<times> (string \<times> string) list \<Rightarrow> error + string option" where
  "getVariantClassName defaultVariants props = (\<lambda>(variant, table).
     let variantProp = obj_get props variant;
         defaultVariantProp = obj_get defaultVariants variant
     in if variantProp = Null then Inr None
        else let variantKey = (if truthy (falsyToString variantProp)
                               then falsyToString variantProp
                               else falsyToString defaultVariantProp)
             in case ToString variantKey of
                  Inl e \<Rightarrow> Inl e
                | Inr key \<Rightarrow> Inr (map_of table key))"

definition cva ::
  "string \<Rightarrow> (string \<times> (string \<times> string) list) list \<Rightarrow> 'a obj \<Rightarrow> 'a obj \<Rightarrow> error + string"
  where
  "cva base variants defaultVariants props =
     (case collect (map (getVariantClassName defaultVariants props) variants) of
        Inl e \<Rightarrow> Inl e
      | Inr classes \<Rightarrow> Inr (clsx (Some base # classes)))"

section \<open>The grouped-items layout (TestimonialsItems)\<close>

definition items_gap_table :: "(string \<times> string) list" where
  "items_gap_table =
     [(''16'', ''gap-4''), (''24'', ''gap-6''), (''32'', ''gap-8''), (''40'', ''gap-10'')]"

definition items_variants :: "'a obj \<Rightarrow> error + string" where
  "items_variants =
     cva ''grid lg:grid-cols-3'' [(''gap'', items_gap_table)] [(''gap'', Num 32)]"

text \<open>
  \<open>children?.filter((_, i) => i % 3 === k)\<close>: \<open>undefined\<close> when \<open>children\<close> is \<open>undefined\<close>
  or \<open>null\<close>, the filtered array when it is an array, and a TypeError for any other value,
  which has no \<open>filter\<close> method to call.
\<close>

fun track :: "nat \<Rightarrow> 'a jsval \<Rightarrow> error + 'a jsval" where
  "track k Undefined = Inr Undefined"
| "track k Null = Inr Undefined"
| "track k (Arr cs) = Inr (Arr (array_filter (\<lambda>_ i. i mod 3 = k) cs))"
| "track k _ = Inl TypeError"

definition track_div :: "'a jsval \<Rightarrow> 'a jsval" where
  "track_div content = Element ''div'' [(''className'', Str ''space-y-6''), (''children'', content)]"

definition TestimonialsItems_params :: "string list" where
  "TestimonialsItems_params = [''gap'', ''children'']"

text \<open>
  The root element's config is the object \<open>{ref, ...rest, className, children}\<close>: the
  attributes written after the spread overwrite entries of \<open>rest\<close> with the same name. The
  class is computed before the tracks, in the order the attributes are written.
\<close>

definition TestimonialsItems :: "'a obj \<Rightarrow> 'a jsval \<Rightarrow> error + 'a jsval" where
  "TestimonialsItems props ref =
     (let gap = obj_get props ''gap'';
          children = obj_get props ''children'';
          rest = obj_rest TestimonialsItems_params props
      in case items_variants [(''gap'', gap)] of Inl e \<Rightarrow> Inl e | Inr cls \<Rightarrow>
         (case track 0 children of Inl e \<Rightarrow> Inl e | Inr t0 \<Rightarrow>
         (case track 1 children of Inl e \<Rightarrow> Inl e | Inr t1 \<Rightarrow>
         (case track 2 children of Inl e \<Rightarrow> Inl e | Inr t2 \<Rightarrow>
            Inr (Element ''div''
              (obj_spread (obj_spread [(''ref'', ref)] rest)
                 [(''className'', Str (clsx [Some cls])),
                  (''children'', Arr [track_div t0, track_div t1, track_div t2])]))))))"

section \<open>The labeled image tile (ImageGalleryItem)\<close>

definition columnSpan_table :: "(string \<times> string) list" where
  "columnSpan_table =
     [(''1'', ''col-span-1''), (''2'', ''col-span-2''), (''3'', ''col-span-3''),
      (''4'', ''col-span-4'')]"

definition borderRadius_table :: "(string \<times> string) list" where
  "borderRadius_table =
     [(''0'', ''''), (''2'', ''rounded-sm''), (''4'', ''rounded''), (''6'', ''rounded-md''),
      (''8'', ''rounded-lg''), (''10'', ''rounded-[10px]''), (''12'', ''rounded-xl''),
      (''14'', ''rounded-[14px]''), (''16'', ''rounded-2xl''), (''18'', ''rounded-[18px]''),
      (''20'', ''rounded-[20px]''), (''22'', ''rounded-[22px]''), (''24'', ''rounded-3xl'')]"

definition hideOnMobile_table :: "(string \<times> string) list" where
  "hideOnMobile_table = [(''true'', ''hidden sm:block''), (''false'', '''')]"

definition image_defaultVariants :: "'a obj" where
  "image_defaultVariants =
     [(''columnSpan'', Num 1), (''borderRadius'', Num 8), (''hideOnMobile'', Bool False)]"

definition image_variants :: "'a obj \<Rightarrow> error + string" where
  "image_variants =
     cva ''relative h-[--image-height]''
       [(''columnSpan'', columnSpan_table), (''borderRadius'', borderRadius_table),
        (''hideOnMobile'', hideOnMobile_table)]
       image_defaultVariants"

definition fontSizeClasses :: "(string \<times> string) list" where
  "fontSizeClasses =
     [(''xs'', ''text-xs''), (''sm'', ''text-sm''), (''base'', ''text-base''),
      (''lg'', ''text-lg''), (''xl'', ''text-xl'')]"

definition fontWeightClasses :: "(string \<times> string) list" where
  "fontWeightClasses =
     [(''normal'', ''font-normal''), (''medium'', ''font-medium''),
      (''semibold'', ''font-semibold''), (''bold'', ''font-bold'')]"

text \<open>A destructuring default \<open>x = d\<close> applies when the property is \<open>undefined\<close> only.\<close>

definition with_default :: "'a jsval \<Rightarrow> 'a jsval \<Rightarrow> 'a jsval" where
  "with_default v d = (if v = Undefined then d else v)"

text \<open>\<open>typeof v === "object"\<close> holds of objects, arrays, elements and \<open>null\<close>.\<close>

fun typeof_object :: "'a jsval \<Rightarrow> bool" where
  "typeof_object Undefined = False"
| "typeof_object (Bool b) = False"
| "typeof_object (Num n) = False"
| "typeof_object NaN = False"
| "typeof_object (Str s) = False"
| "typeof_object _ = True"

definition ImageGalleryItem_params :: "string list" where
  "ImageGalleryItem_params =
     [''src'', ''columnSpan'', ''borderRadius'', ''hideOnMobile'', ''label'', ''labelFontSize'',
      ''labelColor'', ''labelFontWeight'']"

definition normalize_src :: "'a jsval \<Rightarrow> 'a jsval" where
  "normalize_src src = (if typeof_object src then src else Obj [(''url'', src), (''altText'', src)])"

definition container_className ::
  "'a jsval \<Rightarrow> 'a jsval \<Rightarrow> 'a jsval \<Rightarrow> error + string" where
  "container_className columnSpan borderRadius hideOnMobile =
     (case image_variants [(''columnSpan'', columnSpan), (''borderRadius'', borderRadius),
                           (''hideOnMobile'', hideOnMobile)] of
        Inl e \<Rightarrow> Inl e
      | Inr cls \<Rightarrow> Inr (clsx [Some ''relative overflow-hidden'', Some cls]))"

text \<open>
  The \<open>Image\<close> element's config is \<open>{ref, ...rest, className, "data-motion", loading, data,
  width, height, sizes}\<close>; the component \<open>Image\<close> itself is imported and opaque here.
\<close>

definition image_config :: "'a obj \<Rightarrow> 'a jsval \<Rightarrow> 'a jsval \<Rightarrow> 'a obj" where
  "image_config rest ref data =
     obj_spread (obj_spread [(''ref'', ref)] rest)
       [(''className'',
           Str ''w-full h-full object-cover transition-transform duration-300 hover:scale-105''),
        (''data-motion'', Str ''slide-in''),
        (''loading'', Str ''lazy''),
        (''data'', data),
        (''width'', Num 800),
        (''height'', Num 600),
        (''sizes'', Str ''(min-width: 45em) 50vw, 100vw'')]"

text \<open>
  \<open>label && <div ...>{label}</div>\<close>: a falsy label is the value of the expression itself
  (React renders nothing for \<open>undefined\<close> and for the empty string), a truthy one gives
  the caption element. A table lookup \<open>fontSizeClasses[labelFontSize]\<close> that misses is
  \<open>undefined\<close>, which \<open>clsx\<close> skips; the lookup converts its key and throws where the
  conversion does, the font size before the font weight.
\<close>

definition caption ::
  "'a jsval \<Rightarrow> 'a jsval \<Rightarrow> 'a jsval \<Rightarrow> 'a jsval \<Rightarrow> error + 'a jsval" where
  "caption label labelFontSize labelColor labelFontWeight =
     (if truthy label
      then case ToString labelFontSize of Inl e \<Rightarrow> Inl e | Inr sizeKey \<Rightarrow>
           (case ToString labelFontWeight of Inl e \<Rightarrow> Inl e | Inr weightKey \<Rightarrow>
              Inr (Element ''div''
                [(''className'', Str (clsx [Some ''mt-2 text-center font-sans'',
                                            map_of fontSizeClasses sizeKey,
                                            map_of fontWeightClasses weightKey])),
                 (''style'', if truthy labelColor then Obj [(''color'', labelColor)]
                             else Undefined),
                 (''children'', label)]))
      else Inr label)"

text \<open>
  The component destructures its props, normalizes \<open>src\<close> and builds the element tree:
  the image container with its class first, then the caption. Computing the container's
  class or the caption's class throws where a key conversion does; nothing else can.
\<close>

definition ImageGalleryItem :: "'a obj \<Rightarrow> 'a jsval \<Rightarrow> error + 'a jsval" where
  "ImageGalleryItem props ref =
     (let src = obj_get props ''src'';
          columnSpan = obj_get props ''columnSpan'';
          borderRadius = obj_get props ''borderRadius'';
          hideOnMobile = obj_get props ''hideOnMobile'';
          label = obj_get props ''label'';
          labelFontSize = with_default (obj_get props ''labelFontSize'') (Str ''base'');
          labelColor = obj_get props ''labelColor'';
          labelFontWeight = with_default (obj_get props ''labelFontWeight'') (Str ''normal'');
          rest = obj_rest ImageGalleryItem_params props;
          data = normalize_src src
      in case container_className columnSpan borderRadius hideOnMobile of
           Inl e \<Rightarrow> Inl e
         | Inr containerClass \<Rightarrow>
           (case caption label labelFontSize labelColor labelFontWeight of
              Inl e \<Rightarrow> Inl e
            | Inr cap \<Rightarrow>
              Inr (Element ''div''
                [(''className'', Str ''flex flex-col''),
                 (''children'', Arr
                    [Element ''div''
                       [(''className'', Str containerClass),
                        (''children'', Element ''Image'' (image_config rest ref data))],
                     cap])])))"

section \<open>The configuration schemas\<close>

record 'a schema_input =
  itype :: string
  name :: string
  label :: string
  configs :: "'a obj option"
  defaultValue :: "'a jsval"
  placeholder :: "string option"

record 'a inspector_group =
  group :: string
  inputs :: "'a schema_input list"

record 'a schema =
  type :: string
  title :: string
  childTypes :: "string list option"
  inspector :: "'a inspector_group list"

definition items_schema :: "'a schema" where
  "items_schema =
     \<lparr>type = ''testimonials-items'', title = ''Items'',
      childTypes = Some [''testimonial--item''],
      inspector =
        [\<lparr>group = ''Items'',
          inputs =
            [\<lparr>itype = ''range'', name = ''gap'', label = ''Items gap'',
              configs = Some [(''min'', Num 16), (''max'', Num 40), (''step'', Num 8),
                              (''unit'', Str ''px'')],
              defaultValue = Num 32, placeholder = None\<rparr>]\<rparr>]\<rparr>"

definition image_schema :: "'a schema" where
  "image_schema =
     \<lparr>type = ''image-gallery--item'', title = ''Image'', childTypes = None,
      inspector =
        [\<lparr>group = ''Image gallery item'',
          inputs =
            [\<lparr>itype = ''image'', name = ''src'', label = ''Image'', configs = None,
              defaultValue = Str ''https://cdn.shopify.com/s/files/1/0838/0052/3057/files/h2-placeholder-image.svg'',
              placeholder = None\<rparr>,
             \<lparr>itype = ''text'', name = ''label'', label = ''Label'', configs = None,
              defaultValue = Str '''', placeholder = None\<rparr>,
             \<lparr>itype = ''url'', name = ''to'', label = ''Link to'', configs = None,
              defaultValue = Str ''/products'', placeholder = Some ''/products''\<rparr>,
             \<lparr>itype = ''range'', name = ''columnSpan'', label = ''Column span'',
              configs = Some [(''min'', Num 1), (''max'', Num 4), (''step'', Num 1)],
              defaultValue = Num 1, placeholder = None\<rparr>,
             \<lparr>itype = ''range'', name = ''borderRadius'', label = ''Border radius'',
              configs = Some [(''min'', Num 0), (''max'', Num 24), (''step'', Num 2),
                              (''unit'', Str ''px'')],
              defaultValue = Num 0, placeholder = None\<rparr>,
             \<lparr>itype = ''switch'', name = ''hideOnMobile'', label = ''Hide on mobile'',
              configs = None, defaultValue = Bool False, placeholder = None\<rparr>,
             \<lparr>itype = ''select'', name = ''labelFontSize'', label = ''Label Font Size'',
              configs = Some [(''options'', Arr
                [Obj [(''label'', Str ''Extra Small''), (''value'', Str ''xs'')],
                 Obj [(''label'', Str ''Small''), (''value'', Str ''sm'')],
                 Obj [(''label'', Str ''Base''), (''value'', Str ''base'')],
                 Obj [(''label'', Str ''Large''), (''value'', Str ''lg'')],
                 Obj [(''label'', Str ''Extra Large''), (''value'', Str ''xl'')]])],
              defaultValue = Str ''base'', placeholder = None\<rparr>,
             \<lparr>itype = ''select'', name = ''labelFontWeight'', label = ''Label Font Weight'',
              configs = Some [(''options'', Arr
                [Obj [(''label'', Str ''Normal''), (''value'', Str ''normal'')],
                 Obj [(''label'', Str ''Medium''), (''value'', Str ''medium'')],
                 Obj [(''label'', Str ''Semibold''), (''value'', Str ''semibold'')],
                 Obj [(''label'', Str ''Bold''), (''value'', Str ''bold'')]])],
              defaultValue = Str ''normal'', placeholder = None\<rparr>,
             \<lparr>itype = ''color'', name = ''labelColor'', label = ''Label Color'',
              configs = None, defaultValue = Str '''', placeholder = None\<rparr>]\<rparr>]\<rparr>"

text \<open>What the inspector reads from a schema: the input names, and an input's default.\<close>

definition schema_inputs :: "'a schema \<Rightarrow> 'a schema_input list" where
  "schema_inputs s = concat (map inputs (inspector s))"

definition schema_input_names :: "'a schema \<Rightarrow> string list" where
  "schema_input_names s = map name (schema_inputs s)"

definition schema_default :: "'a schema \<Rightarrow> string \<Rightarrow> 'a jsval option" where
  "schema_default s n = map_option defaultValue (find (\<lambda>i. name i = n) (schema_inputs s))"

section \<open>Reading a rendered element\<close>

fun element_props :: "'a jsval \<Rightarrow> 'a obj" where
  "element_props (Element t cfg) = cfg"
| "element_props _ = []"

fun is_element :: "'a jsval \<Rightarrow> bool" where
  "is_element (Element t cfg) = True"
| "is_element _ = False"

text \<open>
  The children of an element as React reads them: the \<open>children\<close> entry of its config, an
  array of several children or a single child; \<open>child i e\<close> is the \<open>i\<close>-th of them,
  \<open>undefined\<close> when there is none.
\<close>

definition element_children :: "'a jsval \<Rightarrow> 'a jsval list" where
  "element_children e =
     (case map_of (element_props e) ''children'' of
        None \<Rightarrow> []
      | Some (Arr xs) \<Rightarrow> xs
      | Some v \<Rightarrow> [v])"

definition child :: "nat \<Rightarrow> 'a jsval \<Rightarrow> 'a jsval" where
  "child i e = (if i < length (element_children e) then element_children e ! i else Undefined)"

section \<open>Describing a class string\<close>

text \<open>
  Three notions used to state what the class helpers compute: the values at which \<open>cva\<close>
  takes the default of a variant, the table entry a variant selects for a value whose key
  is \<open>k\<close> when the default's key is \<open>dkey\<close>, and what a selected entry adds to a class string.
\<close>

definition takes_default :: "'a jsval \<Rightarrow> bool" where
  "takes_default v = (v = Undefined \<or> v = NaN \<or> v = Str [])"

definition selected :: "(string \<times> string) list \<Rightarrow> string \<Rightarrow> 'a jsval \<Rightarrow> string \<Rightarrow> string option" where
  "selected table dkey v k =
     (if v = Null then None else if takes_default v then map_of table dkey else map_of table k)"

definition class_suffix :: "string option \<Rightarrow> string" where
  "class_suffix c = (case c of None \<Rightarrow> [] | Some s \<Rightarrow> if s = [] then [] else '' '' @ s)"

section \<open>Evaluation lemmas\<close>

lemma digits_small: "n < 10 \<Longrightarrow> digits n = [digit_char n]"
  by (simp add: digits.simps)

lemma digits_large: "10 \<le> n \<Longrightarrow> digits n = digits (n div 10) @ [digit_char (n mod 10)]"
  by (subst digits.simps) simp

lemma NumberToString_keys:
  "NumberToString 16 = ''16''" "NumberToString 24 = ''24''"
  "NumberToString 32 = ''32''" "NumberToString 40 = ''40''"
  by code_simp+

lemma NumberToString_values:
  "NumberToString 0 = ''0''" "NumberToString 1 = ''1''" "NumberToString 2 = ''2''"
  "NumberToString 3 = ''3''" "NumberToString 4 = ''4''" "NumberToString 6 = ''6''"
  "NumberToString 8 = ''8''" "NumberToString 10 = ''10''" "NumberToString 12 = ''12''"
  "NumberToString 14 = ''14''" "NumberToString 18 = ''18''" "NumberToString 20 = ''20''"
  "NumberToString 22 = ''22''"
  by code_simp+

section \<open>Decimal keys are distinct\<close>

lemma digit_char_inj: "a < 10 \<Longrightarrow> b < 10 \<Longrightarrow> digit_char a = digit_char b \<Longrightarrow> a = b"
proof -
  assume a: "a < 10" and b: "b < 10" and e: "digit_char a = digit_char b"
  have d: "distinct ''0123456789''" by simp
  have "a < length ''0123456789''" "b < length ''0123456789''" using a b by simp_all
  with d e show ?thesis unfolding digit_char_def by (simp only: nth_eq_iff_index_eq)
qed

lemma digit_char_not_minus: "d < 10 \<Longrightarrow> digit_char d \<noteq> CHR ''-''"
proof -
  assume "d < 10"
  then have "digit_char d \<in> set ''0123456789''"
    unfolding digit_char_def by (intro nth_mem) simp
  then show ?thesis by auto
qed

lemma digits_length_large: "10 \<le> n \<Longrightarrow> 2 \<le> length (digits n)"
proof -
  assume n: "10 \<le> n"
  have ne: "digits (n div 10) \<noteq> []" by (subst digits.simps) simp
  then have "1 \<le> length (digits (n div 10))" by (cases "digits (n div 10)") simp_all
  then show ?thesis using n by (simp add: digits_large)
qed

lemma digits_inj: "digits m = digits n \<Longrightarrow> m = n"
proof (induction m arbitrary: n rule: digits.induct)
  case (1 m)
  show ?case
  proof (cases "m < 10")
    case True
    then have l: "length (digits n) = 1" using "1.prems" [symmetric] by (simp add: digits_small)
    have "n < 10" using l digits_length_large [of n] by (cases "n < 10") simp_all
    then show ?thesis using True "1.prems" by (simp add: digits_small digit_char_inj)
  next
    case False
    then have l: "2 \<le> length (digits n)" using "1.prems" digits_length_large [of m] by simp
    have n: "10 \<le> n" using l by (cases "n < 10") (simp_all add: digits_small)
    from False n "1.prems" have "digits (m div 10) = digits (n div 10)"
      and "digit_char (m mod 10) = digit_char (n mod 10)"
      by (simp_all add: digits_large)
    then have "m div 10 = n div 10" and "m mod 10 = n mod 10"
      using "1.IH" [OF False] by (simp_all add: digit_char_inj)
    then show ?thesis by (metis div_mult_mod_eq)
  qed
qed

lemma digits_hd_not_minus: "hd (digits n) \<noteq> CHR ''-''"
proof (induction n rule: digits.induct)
  case (1 n)
  show ?case
  proof (cases "n < 10")
    case True
    then show ?thesis by (simp add: digits_small digit_char_not_minus)
  next
    case False
    have ne: "digits (n div 10) \<noteq> []" by (subst digits.simps) simp
    with False "1.IH" show ?thesis by (simp add: digits_large)
  qed
qed

lemma NumberToString_inj: "NumberToString m = NumberToString n \<Longrightarrow> m = n"
proof -
  assume e: "NumberToString m = NumberToString n"
  have neg: "hd (NumberToString k) = CHR ''-'' \<longleftrightarrow> k < 0" for k
    using digits_hd_not_minus [of "nat k"] by (simp add: NumberToString_def)
  have s: "m < 0 \<longleftrightarrow> n < 0" using e neg [of m] neg [of n] by simp
  show ?thesis
  proof (cases "m < 0")
    case True
    with s e have "digits (nat (- m)) = digits (nat (- n))" by (simp add: NumberToString_def)
    then have "nat (- m) = nat (- n)" by (rule digits_inj)
    with True s show ?thesis by simp
  next
    case False
    with s e have "digits (nat m) = digits (nat n)" by (simp add: NumberToString_def)
    then have "nat m = nat n" by (rule digits_inj)
    with False s show ?thesis by simp
  qed
qed

lemma NumberToString_nonempty: "NumberToString n \<noteq> []"
proof -
  have "digits k \<noteq> []" for k by (subst digits.simps) simp
  then show ?thesis by (simp add: NumberToString_def)
qed

section \<open>Objects as maps\<close>

lemma map_of_obj_set: "map_of (obj_set k v ob) = (map_of ob)(k \<mapsto> v)"
  by (induction ob) (auto simp: fun_eq_iff)

lemma map_of_obj_rest:
  "map_of (obj_rest names props) k = (if k \<in> set names then None else map_of props k)"
  unfolding obj_rest_def by (induction props) auto

lemma map_of_foldl_obj_set:
  "distinct (map fst source) \<Longrightarrow>
   map_of (foldl (\<lambda>ob (k, v). obj_set k v ob) target source) k =
     (case map_of source k of None \<Rightarrow> map_of target k | Some v \<Rightarrow> Some v)"
proof (induction source arbitrary: target)
  case Nil
  then show ?case by simp
next
  case (Cons p source)
  obtain k' v' where p: "p = (k', v')" by (cases p)
  from Cons.prems p have d: "distinct (map fst source)" and n: "k' \<notin> fst ` set source" by simp_all
  from n have "map_of source k' = None" by (simp add: map_of_eq_None_iff)
  then show ?case using Cons.IH [OF d, of "obj_set k' v' target"] p
    by (auto simp: map_of_obj_set split: option.splits)
qed

lemma map_of_obj_spread:
  "distinct (map fst source) \<Longrightarrow>
   map_of (obj_spread target source) k =
     (case map_of source k of None \<Rightarrow> map_of target k | Some v \<Rightarrow> Some v)"
  unfolding obj_spread_def by (rule map_of_foldl_obj_set)

lemma distinct_obj_rest: "distinct (map fst props) \<Longrightarrow> distinct (map fst (obj_rest names props))"
  unfolding obj_rest_def by (simp add: distinct_map_filter)

section \<open>Key conversion and variant lookups\<close>

lemma NumberToString_key_iff:
  assumes "NumberToString k = s"
  shows "(NumberToString n = s) = (n = k)" and "(s = NumberToString n) = (n = k)"
  by (metis assms NumberToString_inj)+

lemmas key_is_NumberToString =
  NumberToString_key_iff [OF NumberToString_values(1)]
  NumberToString_key_iff [OF NumberToString_values(2)]
  NumberToString_key_iff [OF NumberToString_values(3)]
  NumberToString_key_iff [OF NumberToString_values(4)]
  NumberToString_key_iff [OF NumberToString_values(5)]
  NumberToString_key_iff [OF NumberToString_values(6)]
  NumberToString_key_iff [OF NumberToString_values(7)]
  NumberToString_key_iff [OF NumberToString_values(8)]
  NumberToString_key_iff [OF NumberToString_values(9)]
  NumberToString_key_iff [OF NumberToString_values(10)]
  NumberToString_key_iff [OF NumberToString_values(11)]
  NumberToString_key_iff [OF NumberToString_values(12)]
  NumberToString_key_iff [OF NumberToString_values(13)]
  NumberToString_key_iff [OF NumberToString_keys(1)]
  NumberToString_key_iff [OF NumberToString_keys(2)]
  NumberToString_key_iff [OF NumberToString_keys(3)]
  NumberToString_key_iff [OF NumberToString_keys(4)]

lemma isl_ToString: "isl (ToString v) \<Longrightarrow> truthy v \<and> v \<noteq> Null \<and> \<not> takes_default v \<and> falsyToString v = v"
  by (cases v) (simp_all add: takes_default_def)

lemma ToString_falsyToString: "ToString (falsyToString v) = ToString v"
  by (cases v) (simp_all add: NumberToString_values)

lemma falsy_falsyToString: "(\<not> truthy (falsyToString v)) = (v = Null \<or> takes_default v)"
  by (cases v) (auto simp add: takes_default_def)

lemma ToString_takes_default:
  "takes_default v \<Longrightarrow> ToString v = Inr k \<Longrightarrow> k = ''undefined'' \<or> k = ''NaN'' \<or> k = []"
  by (auto simp add: takes_default_def)

lemma getVariantClassName_selected:
  assumes "ToString (obj_get d variant) = Inr dkey"
  shows "getVariantClassName d p (variant, table) =
     (case ToString (obj_get p variant) of
        Inl e \<Rightarrow> Inl e
      | Inr k \<Rightarrow> Inr (selected table dkey (obj_get p variant) k))"
proof (cases "obj_get p variant = Null")
  case True
  then show ?thesis by (simp add: getVariantClassName_def selected_def)
next
  case notnull: False
  show ?thesis
  proof (cases "takes_default (obj_get p variant)")
    case True
    then have f: "\<not> truthy (falsyToString (obj_get p variant))"
      by (simp add: falsy_falsyToString)
    from True obtain k where k: "ToString (obj_get p variant) = Inr k"
      by (auto simp add: takes_default_def)
    show ?thesis
      using notnull True f k assms
      by (simp add: getVariantClassName_def selected_def ToString_falsyToString)
  next
    case False
    with notnull have t: "truthy (falsyToString (obj_get p variant))"
      using falsy_falsyToString [of "obj_get p variant"] by auto
    show ?thesis
      using notnull False t
      by (simp add: getVariantClassName_def selected_def ToString_falsyToString
          split: sum.splits)
  qed
qed

lemma join_Cons: "join sep (x # xs) = x @ concat (map ((@) sep) xs)"
  by (induction xs arbitrary: x) simp_all

lemma clsx_Some_Cons:
  assumes "b \<noteq> []"
  shows "clsx (Some b # cs) = b @ concat (map class_suffix cs)"
proof -
  have "concat (map ((@) '' '')
          (concat (map (\<lambda>a. case a of None \<Rightarrow> [] | Some s \<Rightarrow> if s = [] then [] else [s]) cs))) =
        concat (map class_suffix cs)"
    by (induction cs) (simp_all add: class_suffix_def split: option.splits)
  then show ?thesis using assms by (simp add: clsx_def join_Cons)
qed

lemma clsx_single: "clsx [Some s] = s"
  by (simp add: clsx_def)

lemma selected_lookup:
  assumes "ToString v = Inr k"
    and "map_of table ''undefined'' = None" and "map_of table ''NaN'' = None"
    and "map_of table [] = None" and "map_of table ''null'' = None"
  shows "selected table dkey v k =
     (case map_of table k of
        Some s \<Rightarrow> Some s
      | None \<Rightarrow> if v = Undefined \<or> v = NaN \<or> v = Str [] then map_of table dkey else None)"
proof (cases "v = Null")
  case True
  with assms show ?thesis by (auto simp add: selected_def)
next
  case notnull: False
  show ?thesis
  proof (cases "takes_default v")
    case True
    from True assms(1) have "k = ''undefined'' \<or> k = ''NaN'' \<or> k = []"
      by (rule ToString_takes_default)
    then have "map_of table k = None" using assms(2-4) by auto
    with True notnull show ?thesis by (auto simp add: selected_def takes_default_def)
  next
    case False
    with notnull show ?thesis
      by (simp add: selected_def takes_default_def split: option.splits)
  qed
qed

lemma items_gap_table_special:
  "map_of items_gap_table ''undefined'' = None" "map_of items_gap_table ''NaN'' = None"
  "map_of items_gap_table [] = None" "map_of items_gap_table ''null'' = None"
  by (simp_all add: items_gap_table_def)

lemma columnSpan_table_special:
  "map_of columnSpan_table ''undefined'' = None" "map_of columnSpan_table ''NaN'' = None"
  "map_of columnSpan_table [] = None" "map_of columnSpan_table ''null'' = None"
  by (simp_all add: columnSpan_table_def)

lemma borderRadius_table_special:
  "map_of borderRadius_table ''undefined'' = None" "map_of borderRadius_table ''NaN'' = None"
  "map_of borderRadius_table [] = None" "map_of borderRadius_table ''null'' = None"
  by (simp_all add: borderRadius_table_def)

lemma hideOnMobile_table_special:
  "map_of hideOnMobile_table ''undefined'' = None" "map_of hideOnMobile_table ''NaN'' = None"
  "map_of hideOnMobile_table [] = None" "map_of hideOnMobile_table ''null'' = None"
  by (simp_all add: hideOnMobile_table_def)

lemma gap_selected:
  assumes "ToString g = Inr k"
  shows "class_suffix (selected items_gap_table ''32'' g k) =
     (let G = (if k = ''16'' then ''gap-4'' else if k = ''24'' then ''gap-6''
               else if k = ''32'' then ''gap-8'' else if k = ''40'' then ''gap-10''
               else if g = Undefined \<or> g = NaN \<or> g = Str [] then ''gap-8'' else [])
      in if G = [] then [] else '' '' @ G)"
  unfolding selected_lookup [OF assms items_gap_table_special] Let_def
  by (simp add: items_gap_table_def class_suffix_def)

lemma items_variants_eq:
  "items_variants [(''gap'', g)] =
     (case ToString g of
        Inl e \<Rightarrow> Inl e
      | Inr k \<Rightarrow> Inr (''grid lg:grid-cols-3'' @ class_suffix (selected items_gap_table ''32'' g k)))"
proof -
  have d: "ToString (obj_get [(''gap'', Num 32)] ''gap'') = Inr ''32''"
    by (simp add: obj_get_def NumberToString_keys)
  have g: "obj_get [(''gap'', g)] ''gap'' = g" by (simp add: obj_get_def)
  show ?thesis
    unfolding items_variants_def cva_def
    by (simp add: getVariantClassName_selected [OF d] g clsx_Some_Cons split: sum.splits)
qed

section \<open>The three tracks\<close>

lemma filter_from_nths:
  "filter_from i (\<lambda>_ j. j mod 3 = k) xs = nths xs {j. (j + i) mod 3 = k}"
  by (induction xs arbitrary: i) (simp_all add: nths_Cons)

lemma list_induct3 [case_names Nil One Two Three]:
  assumes "P []" and "\<And>a. P [a]" and "\<And>a b. P [a, b]"
    and "\<And>a b c xs. P xs \<Longrightarrow> P (a # b # c # xs)"
  shows "P xs"
  using assms by induction_schema (pat_completeness, lexicographic_order)

lemma Suc3_mod3: "Suc (Suc (Suc j)) mod 3 = j mod 3"
proof -
  have "Suc (Suc (Suc j)) = j + 3" by simp
  then show ?thesis by (simp only: mod_add_self2)
qed

lemma array_filter_nths: "array_filter (\<lambda>_ i. i mod 3 = k) cs = nths cs {j. j mod 3 = k}"
  unfolding array_filter_def by (simp add: filter_from_nths)

lemma nths_mod3_Cons3:
  "nths (a # b # c # xs) {j. j mod 3 = k} =
     (if k = 0 then [a] else if k = 1 then [b] else if k = 2 then [c] else []) @
     nths xs {j. j mod 3 = k}"
  by (auto simp add: nths_Cons Suc3_mod3)

lemma nths_mod3_short:
  "nths [a] {j. j mod 3 = k} = (if k = 0 then [a] else [])"
  "nths [a, b] {j. j mod 3 = k} = (if k = 0 then [a] else if k = 1 then [b] else [])"
  by (auto simp add: nths_Cons)

lemma nths_mod3_nth:
  "k < 3 \<Longrightarrow> j < length (nths cs {i. i mod 3 = k}) \<Longrightarrow>
   nths cs {i. i mod 3 = k} ! j = cs ! (3 * j + k)"
proof (induction cs arbitrary: j rule: list_induct3)
  case Nil
  then show ?case by simp
next
  case (One a)
  then show ?case by (simp add: nths_mod3_short split: if_splits)
next
  case (Two a b)
  then show ?case by (simp add: nths_mod3_short split: if_splits)
next
  case (Three a b c xs)
  from Three.prems(1) have k: "k = 0 \<or> k = 1 \<or> k = 2" by linarith
  show ?case
  proof (cases j)
    case 0
    with k show ?thesis by (auto simp add: nths_mod3_Cons3)
  next
    case (Suc j')
    have idx: "3 * Suc j' + k = Suc (Suc (Suc (3 * j' + k)))" by simp
    from Three.prems Suc k have "j' < length (nths xs {i. i mod 3 = k})"
      by (auto simp add: nths_mod3_Cons3)
    then have "nths xs {i. i mod 3 = k} ! j' = xs ! (3 * j' + k)"
      by (rule Three.IH [OF Three.prems(1)])
    with k show ?thesis unfolding Suc idx by (auto simp add: nths_mod3_Cons3)
  qed
qed

lemma nths_mod3_lengths:
  "length (nths cs {i. i mod 3 = 0}) + length (nths cs {i. i mod 3 = 1}) +
     length (nths cs {i. i mod 3 = 2}) = length cs \<and>
   length (nths cs {i. i mod 3 = 2}) \<le> length (nths cs {i. i mod 3 = 1}) \<and>
   length (nths cs {i. i mod 3 = 1}) \<le> length (nths cs {i. i mod 3 = 0}) \<and>
   length (nths cs {i. i mod 3 = 0}) \<le> length (nths cs {i. i mod 3 = 2}) + 1"
  by (induction cs rule: list_induct3) (simp_all add: nths_mod3_Cons3 nths_mod3_short)

lemma nths_mod3_member: "i < length cs \<Longrightarrow> cs ! i \<in> set (nths cs {j. j mod 3 = i mod 3})"
  by (auto simp add: set_nths)

lemma nths_subseq: "subseq (nths cs I) cs"
  unfolding subseq_conv_nths by blast

lemma isl_TypeError: "isl r = (r = Inl TypeError)"
proof (cases r)
  case (Inl e)
  then show ?thesis by (cases e) simp
next
  case (Inr x)
  then show ?thesis by simp
qed

lemma obj_spread_Nil: "obj_spread target [] = target"
  by (simp add: obj_spread_def)

lemma obj_spread_Cons: "obj_spread target ((k, v) # source) = obj_spread (obj_set k v target) source"
  by (simp add: obj_spread_def)

lemma obj_get_Cons: "obj_get ((k, v) # ob) k' = (if k' = k then v else obj_get ob k')"
  by (simp add: obj_get_def)

lemma items_config_lookup:
  "obj_get (obj_spread target [(''className'', c), (''children'', ch)]) ''className'' = c"
  "obj_get (obj_spread target [(''className'', c), (''children'', ch)]) ''children'' = ch"
  by (simp_all add: obj_spread_Cons obj_spread_Nil obj_get_def map_of_obj_set)

lemma TestimonialsItems_Arr:
  assumes "obj_get props ''children'' = Arr cs"
  shows "TestimonialsItems props ref =
     (case ToString (obj_get props ''gap'') of
        Inl e \<Rightarrow> Inl e
      | Inr k \<Rightarrow>
          Inr (Element ''div''
            (obj_spread (obj_spread [(''ref'', ref)] (obj_rest TestimonialsItems_params props))
               [(''className'', Str (''grid lg:grid-cols-3'' @
                    class_suffix (selected items_gap_table ''32'' (obj_get props ''gap'') k))),
                (''children'', Arr
                   [track_div (Arr (nths cs {i. i mod 3 = 0})),
                    track_div (Arr (nths cs {i. i mod 3 = 1})),
                    track_div (Arr (nths cs {i. i mod 3 = 2}))])])))"
  using assms
  by (simp add: TestimonialsItems_def items_variants_eq clsx_single array_filter_nths
      split: sum.splits)

lemma TestimonialsItems_Inr:
  assumes "TestimonialsItems props ref = Inr root"
  shows "\<exists>k t0 t1 t2. ToString (obj_get props ''gap'') = Inr k \<and>
     root = Element ''div''
       (obj_spread (obj_spread [(''ref'', ref)] (obj_rest TestimonialsItems_params props))
          [(''className'', Str (''grid lg:grid-cols-3'' @
               class_suffix (selected items_gap_table ''32'' (obj_get props ''gap'') k))),
           (''children'', Arr [track_div t0, track_div t1, track_div t2])])"
  using assms
  by (auto simp add: TestimonialsItems_def items_variants_eq clsx_single Let_def
      split: sum.splits)

section \<open>The grouped layout: partition into three tracks\<close>

lemma TestimonialsItems_no_children:
  "TestimonialsItems [(''children'', Arr [])] ref =
   Inr (Element ''div''
     [(''ref'', ref),
      (''className'', Str ''grid lg:grid-cols-3 gap-8''),
      (''children'', Arr
         [Element ''div'' [(''className'', Str ''space-y-6''), (''children'', Arr [])],
          Element ''div'' [(''className'', Str ''space-y-6''), (''children'', Arr [])],
          Element ''div'' [(''className'', Str ''space-y-6''), (''children'', Arr [])]])])"
  by (simp add: TestimonialsItems_def TestimonialsItems_params_def obj_get_def obj_rest_def
      obj_spread_def track_div_def array_filter_def Let_def items_variants_def cva_def
      getVariantClassName_def clsx_def items_gap_table_def NumberToString_keys)

text \<open>
  C1. For every child sequence \<open>cs\<close> (the empty one included) the layout renders a root
  element whose children are exactly three track elements, each a \<open>div\<close> of class
  \<open>space-y-6\<close>, the track \<open>k\<close> holding the children at the positions \<open>i\<close> with
  \<open>i mod 3 = k\<close> in their original order: the child at position \<open>i\<close> is in track
  \<open>i mod 3\<close>, the \<open>j\<close>-th element of track \<open>k\<close> is the child at position \<open>3 * j + k\<close>, each
  track is a subsequence of \<open>cs\<close>, the three tracks together have \<open>length cs\<close> elements, and
  their sizes differ by at most one. The layout renders whenever \<open>gap\<close> converts to a
  property key, and throws a TypeError otherwise.
\<close>

theorem C1_three_tracks:
  assumes "obj_get props ''children'' = Arr cs"
  shows "let t = (\<lambda>k. nths cs {i. i mod 3 = k}) in
    (isl (ToString (obj_get props ''gap'')) \<longrightarrow> TestimonialsItems props ref = Inl TypeError) \<and>
    (\<not> isl (ToString (obj_get props ''gap'')) \<longrightarrow>
       (\<exists>cfg. TestimonialsItems props ref = Inr (Element ''div'' cfg) \<and>
          obj_get cfg ''children'' =
            Arr [Element ''div'' [(''className'', Str ''space-y-6''), (''children'', Arr (t 0))],
                 Element ''div'' [(''className'', Str ''space-y-6''), (''children'', Arr (t 1))],
                 Element ''div'' [(''className'', Str ''space-y-6''), (''children'', Arr (t 2))]])) \<and>
    (\<forall>i<length cs. cs ! i \<in> set (t (i mod 3))) \<and>
    (\<forall>k<3. \<forall>j<length (t k). t k ! j = cs ! (3 * j + k)) \<and>
    (\<forall>k<3. subseq (t k) cs) \<and>
    length (t 0) + length (t 1) + length (t 2) = length cs \<and>
    length (t 2) \<le> length (t 1) \<and> length (t 1) \<le> length (t 0) \<and>
    length (t 0) \<le> length (t 2) + 1"
proof -
  have throws: "TestimonialsItems props ref = Inl TypeError"
    if "isl (ToString (obj_get props ''gap''))"
    using that by (simp add: TestimonialsItems_Arr [OF assms] isl_TypeError)
  have tree: "\<exists>cfg. TestimonialsItems props ref = Inr (Element ''div'' cfg) \<and>
     obj_get cfg ''children'' =
       Arr [Element ''div'' [(''className'', Str ''space-y-6''),
                             (''children'', Arr (nths cs {i. i mod 3 = 0}))],
            Element ''div'' [(''className'', Str ''space-y-6''),
                             (''children'', Arr (nths cs {i. i mod 3 = 1}))],
            Element ''div'' [(''className'', Str ''space-y-6''),
                             (''children'', Arr (nths cs {i. i mod 3 = 2}))]]"
    if "\<not> isl (ToString (obj_get props ''gap''))"
  proof -
    from that obtain k where "ToString (obj_get props ''gap'') = Inr k"
      by (cases "ToString (obj_get props ''gap'')") simp_all
    then show ?thesis
      by (simp add: TestimonialsItems_Arr [OF assms] items_config_lookup track_div_def)
  qed
  have pos: "\<forall>i<length cs. cs ! i \<in> set (nths cs {j. j mod 3 = i mod 3})"
    by (simp add: nths_mod3_member)
  have idx: "\<forall>k<3. \<forall>j<length (nths cs {i. i mod 3 = k}).
      nths cs {i. i mod 3 = k} ! j = cs ! (3 * j + k)"
    by (simp add: nths_mod3_nth)
  have ord: "\<forall>k<3. subseq (nths cs {i. i mod 3 = k}) cs"
    by (simp add: nths_subseq)
  show ?thesis
    unfolding Let_def using throws tree pos idx ord nths_mod3_lengths [of cs] by blast
qed

theorem C1_three_tracks_witness:
  "obj_get [(''gap'', Num 16), (''children'', Arr [Node 1, Node 2, Node 3, Node (4::nat)])]
     ''children'' = Arr [Node 1, Node 2, Node 3, Node 4] \<and>
   \<not> isl (ToString (obj_get
       [(''gap'', Num 16), (''children'', Arr [Node 1, Node 2, Node 3, Node (4::nat)])] ''gap'')) \<and>
   (\<exists>cfg. TestimonialsItems
       [(''gap'', Num 16), (''children'', Arr [Node 1, Node 2, Node 3, Node (4::nat)])] Null =
         Inr (Element ''div'' cfg) \<and>
      obj_get cfg ''children'' =
        Arr [Element ''div'' [(''className'', Str ''space-y-6''),
                              (''children'', Arr [Node 1, Node 4])],
             Element ''div'' [(''className'', Str ''space-y-6''), (''children'', Arr [Node 2])],
             Element ''div'' [(''className'', Str ''space-y-6''), (''children'', Arr [Node 3])]])"
proof -
  have h: "obj_get [(''gap'', Num 16), (''children'', Arr [Node 1, Node 2, Node 3, Node (4::nat)])]
     ''children'' = Arr [Node 1, Node 2, Node 3, Node 4]"
    by (simp add: obj_get_def)
  have g: "\<not> isl (ToString (obj_get
       [(''gap'', Num 16), (''children'', Arr [Node 1, Node 2, Node 3, Node (4::nat)])] ''gap''))"
    by (simp add: obj_get_def)
  have t: "nths [Node 1, Node 2, Node 3, Node (4::nat)] {i. i mod 3 = 0} = [Node 1, Node 4]"
    "nths [Node 1, Node 2, Node 3, Node (4::nat)] {i. i mod 3 = 1} = [Node 2]"
    "nths [Node 1, Node 2, Node 3, Node (4::nat)] {i. i mod 3 = 2} = [Node 3]"
    by (simp_all add: nths_mod3_Cons3 nths_mod3_short)
  from C1_three_tracks [OF h, of Null] show ?thesis
    unfolding Let_def t using h g by blast
qed

section \<open>The grouped layout: the spacing class\<close>

lemma TestimonialsItems_className:
  assumes "TestimonialsItems props ref = Inr root"
  shows "\<exists>k. ToString (obj_get props ''gap'') = Inr k \<and>
     obj_get (element_props root) ''className'' =
       Str (''grid lg:grid-cols-3'' @
            class_suffix (selected items_gap_table ''32'' (obj_get props ''gap'') k))"
proof -
  obtain k t0 t1 t2 where k: "ToString (obj_get props ''gap'') = Inr k"
    and root: "root = Element ''div''
       (obj_spread (obj_spread [(''ref'', ref)] (obj_rest TestimonialsItems_params props))
          [(''className'', Str (''grid lg:grid-cols-3'' @
               class_suffix (selected items_gap_table ''32'' (obj_get props ''gap'') k))),
           (''children'', Arr [track_div t0, track_div t1, track_div t2])])"
    using TestimonialsItems_Inr [OF assms] by blast
  show ?thesis
    by (rule exI [of _ k]) (simp add: k root items_config_lookup)
qed

text \<open>
  C2 (amended). Whenever the layout renders, the root element's class is the base classes
  followed by the spacing class \<open>G\<close> that \<open>gap\<close> alone decides: 16, 24, 32 and 40 give
  \<open>gap-4\<close>, \<open>gap-6\<close>, \<open>gap-8\<close> and \<open>gap-10\<close>; outside that set, \<open>gap\<close> omitted, \<open>NaN\<close> or the
  empty string gives the class of the default 32, \<open>gap-8\<close>; every other integer, \<open>null\<close>,
  and every other value whose property key is none of \<open>16\<close>, \<open>24\<close>, \<open>32\<close>, \<open>40\<close> gives no
  spacing class.
\<close>

theorem C2_gap_class:
  assumes "TestimonialsItems props ref = Inr root"
  shows "\<exists>G. obj_get (element_props root) ''className'' =
       Str (''grid lg:grid-cols-3'' @ (if G = [] then [] else '' '' @ G)) \<and>
     (\<forall>n. obj_get props ''gap'' = Num n \<longrightarrow>
        G = (if n = 16 then ''gap-4'' else if n = 24 then ''gap-6''
             else if n = 32 then ''gap-8'' else if n = 40 then ''gap-10'' else [])) \<and>
     (obj_get props ''gap'' = Undefined \<or> obj_get props ''gap'' = NaN \<or>
      obj_get props ''gap'' = Str [] \<longrightarrow> G = ''gap-8'') \<and>
     (obj_get props ''gap'' = Null \<longrightarrow> G = []) \<and>
     (\<forall>k. ToString (obj_get props ''gap'') = Inr k \<longrightarrow>
        G = (if k = ''16'' then ''gap-4'' else if k = ''24'' then ''gap-6''
             else if k = ''32'' then ''gap-8'' else if k = ''40'' then ''gap-10''
             else if obj_get props ''gap'' = Undefined \<or> obj_get props ''gap'' = NaN \<or>
                     obj_get props ''gap'' = Str [] then ''gap-8''
             else []))"
proof -
  let ?g = "obj_get props ''gap''"
  obtain k where k: "ToString ?g = Inr k"
    and cls: "obj_get (element_props root) ''className'' =
       Str (''grid lg:grid-cols-3'' @ class_suffix (selected items_gap_table ''32'' ?g k))"
    using TestimonialsItems_className [OF assms] by blast
  let ?G = "if k = ''16'' then ''gap-4'' else if k = ''24'' then ''gap-6''
            else if k = ''32'' then ''gap-8'' else if k = ''40'' then ''gap-10''
            else if ?g = Undefined \<or> ?g = NaN \<or> ?g = Str [] then ''gap-8'' else []"
  have c: "obj_get (element_props root) ''className'' =
       Str (''grid lg:grid-cols-3'' @ (if ?G = [] then [] else '' '' @ ?G))"
    using gap_selected [OF k] unfolding cls Let_def by simp
  have num: "?G = (if n = 16 then ''gap-4'' else if n = 24 then ''gap-6''
             else if n = 32 then ''gap-8'' else if n = 40 then ''gap-10'' else [])"
    if "?g = Num n" for n
    using k that by (auto simp add: key_is_NumberToString)
  have dflt: "?G = ''gap-8''" if "?g = Undefined \<or> ?g = NaN \<or> ?g = Str []"
    using k that by auto
  have null: "?G = []" if "?g = Null"
    using k that by auto
  show ?thesis
    by (rule exI [of _ ?G]) (use c num dflt null k in auto)
qed

theorem C2_gap_class_witness:
  "TestimonialsItems [(''gap'', Num 99), (''children'', Arr [])] (Null :: unit jsval) =
     Inr (Element ''div''
       [(''ref'', Null),
        (''className'', Str ''grid lg:grid-cols-3''),
        (''children'', Arr [track_div (Arr []), track_div (Arr []), track_div (Arr [])])]) \<and>
   TestimonialsItems [(''gap'', NaN), (''children'', Arr [])] (Null :: unit jsval) =
     Inr (Element ''div''
       [(''ref'', Null),
        (''className'', Str ''grid lg:grid-cols-3 gap-8''),
        (''children'', Arr [track_div (Arr []), track_div (Arr []), track_div (Arr [])])]) \<and>
   obj_get (element_props (Element ''div''
       [(''ref'', Null :: unit jsval),
        (''className'', Str ''grid lg:grid-cols-3''),
        (''children'', Arr [track_div (Arr []), track_div (Arr []), track_div (Arr [])])]))
     ''className'' = Str ''grid lg:grid-cols-3'' \<and>
   obj_get (element_props (Element ''div''
       [(''ref'', Null :: unit jsval),
        (''className'', Str ''grid lg:grid-cols-3 gap-8''),
        (''children'', Arr [track_div (Arr []), track_div (Arr []), track_div (Arr [])])]))
     ''className'' = Str ''grid lg:grid-cols-3 gap-8''"
proof -
  let ?R99 = "Element ''div''
       [(''ref'', Null :: unit jsval),
        (''className'', Str ''grid lg:grid-cols-3''),
        (''children'', Arr [track_div (Arr []), track_div (Arr []), track_div (Arr [])])]"
  let ?RNaN = "Element ''div''
       [(''ref'', Null :: unit jsval),
        (''className'', Str ''grid lg:grid-cols-3 gap-8''),
        (''children'', Arr [track_div (Arr []), track_div (Arr []), track_div (Arr [])])]"
  have r99: "TestimonialsItems [(''gap'', Num 99), (''children'', Arr [])] Null = Inr ?R99"
    by (simp add: TestimonialsItems_Arr [of _ "[]"] obj_get_def TestimonialsItems_params_def
        obj_rest_def obj_spread_def selected_def takes_default_def class_suffix_def
        items_gap_table_def key_is_NumberToString)
  have rNaN: "TestimonialsItems [(''gap'', NaN), (''children'', Arr [])] Null = Inr ?RNaN"
    by (simp add: TestimonialsItems_Arr [of _ "[]"] obj_get_def TestimonialsItems_params_def
        obj_rest_def obj_spread_def selected_def takes_default_def class_suffix_def
        items_gap_table_def)
  from C2_gap_class [OF r99] C2_gap_class [OF rNaN] show ?thesis
    using r99 rNaN by (simp add: obj_get_def)
qed

text \<open>
  The claim as stated fails at \<open>gap = 99\<close>: the root's class is the base classes alone,
  while the default \<open>gap = 32\<close> gives \<open>gap-8\<close>.
\<close>

theorem C2_out_of_range_gap_counterexample:
  "TestimonialsItems [(''gap'', Num 99), (''children'', Arr [])] (Null :: unit jsval) =
     Inr (Element ''div''
       [(''ref'', Null),
        (''className'', Str ''grid lg:grid-cols-3''),
        (''children'', Arr [track_div (Arr []), track_div (Arr []), track_div (Arr [])])]) \<and>
   TestimonialsItems [(''gap'', Num 32), (''children'', Arr [])] (Null :: unit jsval) =
     Inr (Element ''div''
       [(''ref'', Null),
        (''className'', Str ''grid lg:grid-cols-3 gap-8''),
        (''children'', Arr [track_div (Arr []), track_div (Arr []), track_div (Arr [])])])"
  by (simp add: TestimonialsItems_Arr [of _ "[]"] obj_get_def TestimonialsItems_params_def
      obj_rest_def obj_spread_def selected_def takes_default_def class_suffix_def
      items_gap_table_def key_is_NumberToString NumberToString_keys)

section \<open>The image tile: its class and its parts\<close>

lemma error_unique: "(e :: error) = TypeError"
  by (cases e) simp

lemma columnSpan_selected:
  assumes "ToString c = Inr k"
  shows "class_suffix (selected columnSpan_table ''1'' c k) =
     (let C = (if k = ''1'' then ''col-span-1'' else if k = ''2'' then ''col-span-2''
               else if k = ''3'' then ''col-span-3'' else if k = ''4'' then ''col-span-4''
               else if c = Undefined \<or> c = NaN \<or> c = Str [] then ''col-span-1'' else [])
      in if C = [] then [] else '' '' @ C)"
  unfolding selected_lookup [OF assms columnSpan_table_special] Let_def
  by (simp add: columnSpan_table_def class_suffix_def)

lemma borderRadius_selected:
  assumes "ToString b = Inr k"
  shows "class_suffix (selected borderRadius_table ''8'' b k) =
     (let R = (if k = ''0'' then [] else if k = ''2'' then ''rounded-sm''
               else if k = ''4'' then ''rounded'' else if k = ''6'' then ''rounded-md''
               else if k = ''8'' then ''rounded-lg'' else if k = ''10'' then ''rounded-[10px]''
               else if k = ''12'' then ''rounded-xl'' else if k = ''14'' then ''rounded-[14px]''
               else if k = ''16'' then ''rounded-2xl'' else if k = ''18'' then ''rounded-[18px]''
               else if k = ''20'' then ''rounded-[20px]'' else if k = ''22'' then ''rounded-[22px]''
               else if k = ''24'' then ''rounded-3xl''
               else if b = Undefined \<or> b = NaN \<or> b = Str [] then ''rounded-lg'' else [])
      in if R = [] then [] else '' '' @ R)"
  unfolding selected_lookup [OF assms borderRadius_table_special] Let_def
  by (simp add: borderRadius_table_def class_suffix_def)

lemma hideOnMobile_selected:
  assumes "ToString h = Inr k"
  shows "class_suffix (selected hideOnMobile_table ''false'' h k) =
     (let H = (if k = ''true'' then ''hidden sm:block'' else [])
      in if H = [] then [] else '' '' @ H)"
  unfolding selected_lookup [OF assms hideOnMobile_table_special] Let_def
  by (simp add: hideOnMobile_table_def class_suffix_def)

lemma image_default_keys:
  "ToString (obj_get image_defaultVariants ''columnSpan'') = Inr ''1''"
  "ToString (obj_get image_defaultVariants ''borderRadius'') = Inr ''8''"
  "ToString (obj_get image_defaultVariants ''hideOnMobile'') = Inr ''false''"
  by (simp_all add: image_defaultVariants_def obj_get_def NumberToString_values)

lemma image_variants_eq:
  "image_variants [(''columnSpan'', c), (''borderRadius'', b), (''hideOnMobile'', h)] =
     (case ToString c of Inl e \<Rightarrow> Inl e | Inr kc \<Rightarrow>
     (case ToString b of Inl e \<Rightarrow> Inl e | Inr kb \<Rightarrow>
     (case ToString h of Inl e \<Rightarrow> Inl e | Inr kh \<Rightarrow>
        Inr (''relative h-[--image-height]'' @
             class_suffix (selected columnSpan_table ''1'' c kc) @
             class_suffix (selected borderRadius_table ''8'' b kb) @
             class_suffix (selected hideOnMobile_table ''false'' h kh)))))"
proof -
  have g: "obj_get [(''columnSpan'', c), (''borderRadius'', b), (''hideOnMobile'', h)]
             ''columnSpan'' = c"
    "obj_get [(''columnSpan'', c), (''borderRadius'', b), (''hideOnMobile'', h)]
             ''borderRadius'' = b"
    "obj_get [(''columnSpan'', c), (''borderRadius'', b), (''hideOnMobile'', h)]
             ''hideOnMobile'' = h"
    by (simp_all add: obj_get_def)
  show ?thesis
    unfolding image_variants_def cva_def
    by (simp add: getVariantClassName_selected [OF image_default_keys(1)]
        getVariantClassName_selected [OF image_default_keys(2)]
        getVariantClassName_selected [OF image_default_keys(3)]
        g clsx_Some_Cons split: sum.splits)
qed

lemma container_className_eq:
  "container_className c b h =
     (case ToString c of Inl e \<Rightarrow> Inl e | Inr kc \<Rightarrow>
     (case ToString b of Inl e \<Rightarrow> Inl e | Inr kb \<Rightarrow>
     (case ToString h of Inl e \<Rightarrow> Inl e | Inr kh \<Rightarrow>
        Inr (''relative overflow-hidden relative h-[--image-height]'' @
             class_suffix (selected columnSpan_table ''1'' c kc) @
             class_suffix (selected borderRadius_table ''8'' b kb) @
             class_suffix (selected hideOnMobile_table ''false'' h kh)))))"
  unfolding container_className_def image_variants_eq
  by (simp add: clsx_Some_Cons class_suffix_def split: sum.splits)

lemma container_className_throws:
  "(container_className c b h = Inl TypeError) =
     (isl (ToString c) \<or> isl (ToString b) \<or> isl (ToString h))"
  unfolding container_className_eq by (auto simp add: error_unique split: sum.splits)

lemma isl_with_default: "isl (ToString (with_default v (Str d))) = isl (ToString v)"
  by (simp add: with_default_def)

lemma caption_throws:
  "(caption l fs col fw = Inl TypeError) =
     (truthy l \<and> (isl (ToString fs) \<or> isl (ToString fw)))"
  unfolding caption_def by (auto simp add: error_unique split: sum.splits)

lemma ImageGalleryItem_throws:
  "(ImageGalleryItem props ref = Inl TypeError) =
     (isl (ToString (obj_get props ''columnSpan'')) \<or>
      isl (ToString (obj_get props ''borderRadius'')) \<or>
      isl (ToString (obj_get props ''hideOnMobile'')) \<or>
      (truthy (obj_get props ''label'') \<and>
         (isl (ToString (obj_get props ''labelFontSize'')) \<or>
          isl (ToString (obj_get props ''labelFontWeight'')))))"
proof -
  have "(ImageGalleryItem props ref = Inl TypeError) =
     (container_className (obj_get props ''columnSpan'') (obj_get props ''borderRadius'')
        (obj_get props ''hideOnMobile'') = Inl TypeError \<or>
      caption (obj_get props ''label'')
        (with_default (obj_get props ''labelFontSize'') (Str ''base''))
        (obj_get props ''labelColor'')
        (with_default (obj_get props ''labelFontWeight'') (Str ''normal'')) = Inl TypeError)"
    unfolding ImageGalleryItem_def Let_def
    by (auto simp add: error_unique split: sum.splits)
  then show ?thesis
    unfolding container_className_throws caption_throws isl_with_default by blast
qed

lemma ImageGalleryItem_Inr:
  assumes "ImageGalleryItem props ref = Inr tile"
  shows "\<exists>cc cap.
     container_className (obj_get props ''columnSpan'') (obj_get props ''borderRadius'')
       (obj_get props ''hideOnMobile'') = Inr cc \<and>
     caption (obj_get props ''label'')
       (with_default (obj_get props ''labelFontSize'') (Str ''base''))
       (obj_get props ''labelColor'')
       (with_default (obj_get props ''labelFontWeight'') (Str ''normal'')) = Inr cap \<and>
     tile = Element ''div''
       [(''className'', Str ''flex flex-col''),
        (''children'', Arr
           [Element ''div''
              [(''className'', Str cc),
               (''children'', Element ''Image''
                  (image_config (obj_rest ImageGalleryItem_params props) ref
                     (normalize_src (obj_get props ''src''))))],
            cap])]"
  using assms unfolding ImageGalleryItem_def Let_def by (auto split: sum.splits)

lemma tile_parts:
  "child 0 (Element t [(''className'', c), (''children'', Arr [x, y])]) = x"
  "child (Suc 0) (Element t [(''className'', c), (''children'', Arr [x, y])]) = y"
  "length (element_children (Element t [(''className'', c), (''children'', Arr [x, y])])) = 2"
  by (simp_all add: child_def element_children_def)

lemma child_single:
  "child 0 (Element t [(''className'', c), (''children'', Element t' cfg)]) = Element t' cfg"
  by (simp add: child_def element_children_def)

lemma container_class_rendered:
  assumes "ImageGalleryItem props ref = Inr tile"
  shows "\<exists>kc kb kh.
     ToString (obj_get props ''columnSpan'') = Inr kc \<and>
     ToString (obj_get props ''borderRadius'') = Inr kb \<and>
     ToString (obj_get props ''hideOnMobile'') = Inr kh \<and>
     obj_get (element_props (child 0 tile)) ''className'' =
       Str (''relative overflow-hidden relative h-[--image-height]'' @
            class_suffix (selected columnSpan_table ''1'' (obj_get props ''columnSpan'') kc) @
            class_suffix (selected borderRadius_table ''8'' (obj_get props ''borderRadius'') kb) @
            class_suffix (selected hideOnMobile_table ''false'' (obj_get props ''hideOnMobile'') kh))"
proof -
  obtain cc cap where cc: "container_className (obj_get props ''columnSpan'')
       (obj_get props ''borderRadius'') (obj_get props ''hideOnMobile'') = Inr cc"
    and tile: "tile = Element ''div''
       [(''className'', Str ''flex flex-col''),
        (''children'', Arr
           [Element ''div''
              [(''className'', Str cc),
               (''children'', Element ''Image''
                  (image_config (obj_rest ImageGalleryItem_params props) ref
                     (normalize_src (obj_get props ''src''))))],
            cap])]"
    using ImageGalleryItem_Inr [OF assms] by blast
  have cls: "obj_get (element_props (child 0 tile)) ''className'' = Str cc"
    unfolding tile tile_parts by (simp add: obj_get_Cons)
  from cc show ?thesis
    unfolding container_className_eq cls by (auto split: sum.splits)
qed

text \<open>
  C3 (amended). The render throws a TypeError exactly when one of the values it converts
  to a property key cannot be converted: \<open>columnSpan\<close>, \<open>borderRadius\<close>, \<open>hideOnMobile\<close>,
  and the font size and weight of a rendered caption. Whenever it renders, the container's
  class is its base classes followed by the classes \<open>C\<close>, \<open>R\<close> and \<open>H\<close> of the three
  variants. Each \<open>columnSpan\<close> in 1..4 and each \<open>borderRadius\<close> in 0, 2, .., 24 selects the
  one class of its table entry (the empty class for radius 0); a value whose property key
  is no entry of the table selects the default's class when it is \<open>undefined\<close>, \<open>NaN\<close> or
  the empty string, and no class otherwise.
\<close>

theorem C3_variant_classes:
  "((ImageGalleryItem props ref = Inl TypeError) =
      (isl (ToString (obj_get props ''columnSpan'')) \<or>
       isl (ToString (obj_get props ''borderRadius'')) \<or>
       isl (ToString (obj_get props ''hideOnMobile'')) \<or>
       (truthy (obj_get props ''label'') \<and>
          (isl (ToString (obj_get props ''labelFontSize'')) \<or>
           isl (ToString (obj_get props ''labelFontWeight'')))))) \<and>
   (\<forall>tile. ImageGalleryItem props ref = Inr tile \<longrightarrow>
      (\<exists>C R H.
         obj_get (element_props (child 0 tile)) ''className'' =
           Str (''relative overflow-hidden relative h-[--image-height]'' @
                (if C = [] then [] else '' '' @ C) @
                (if R = [] then [] else '' '' @ R) @
                (if H = [] then [] else '' '' @ H)) \<and>
         (\<forall>n. obj_get props ''columnSpan'' = Num n \<longrightarrow>
            C = (if n = 1 then ''col-span-1'' else if n = 2 then ''col-span-2''
                 else if n = 3 then ''col-span-3'' else if n = 4 then ''col-span-4'' else [])) \<and>
         (\<forall>n. obj_get props ''borderRadius'' = Num n \<longrightarrow>
            R = (if n = 0 then [] else if n = 2 then ''rounded-sm''
                 else if n = 4 then ''rounded'' else if n = 6 then ''rounded-md''
                 else if n = 8 then ''rounded-lg'' else if n = 10 then ''rounded-[10px]''
                 else if n = 12 then ''rounded-xl'' else if n = 14 then ''rounded-[14px]''
                 else if n = 16 then ''rounded-2xl'' else if n = 18 then ''rounded-[18px]''
                 else if n = 20 then ''rounded-[20px]'' else if n = 22 then ''rounded-[22px]''
                 else if n = 24 then ''rounded-3xl'' else [])) \<and>
         (\<forall>k. ToString (obj_get props ''columnSpan'') = Inr k \<longrightarrow>
            C = (if k = ''1'' then ''col-span-1'' else if k = ''2'' then ''col-span-2''
                 else if k = ''3'' then ''col-span-3'' else if k = ''4'' then ''col-span-4''
                 else if obj_get props ''columnSpan'' = Undefined \<or>
                         obj_get props ''columnSpan'' = NaN \<or>
                         obj_get props ''columnSpan'' = Str [] then ''col-span-1''
                 else [])) \<and>
         (\<forall>k. ToString (obj_get props ''borderRadius'') = Inr k \<longrightarrow>
            R = (if k = ''0'' then [] else if k = ''2'' then ''rounded-sm''
                 else if k = ''4'' then ''rounded'' else if k = ''6'' then ''rounded-md''
                 else if k = ''8'' then ''rounded-lg'' else if k = ''10'' then ''rounded-[10px]''
                 else if k = ''12'' then ''rounded-xl'' else if k = ''14'' then ''rounded-[14px]''
                 else if k = ''16'' then ''rounded-2xl'' else if k = ''18'' then ''rounded-[18px]''
                 else if k = ''20'' then ''rounded-[20px]'' else if k = ''22'' then ''rounded-[22px]''
                 else if k = ''24'' then ''rounded-3xl''
                 else if obj_get props ''borderRadius'' = Undefined \<or>
                         obj_get props ''borderRadius'' = NaN \<or>
                         obj_get props ''borderRadius'' = Str [] then ''rounded-lg''
                 else [])) \<and>
         (\<forall>k. ToString (obj_get props ''hideOnMobile'') = Inr k \<longrightarrow>
            H = (if k = ''true'' then ''hidden sm:block'' else []))))"
proof (intro conjI allI impI)
  show "(ImageGalleryItem props ref = Inl TypeError) =
      (isl (ToString (obj_get props ''columnSpan'')) \<or>
       isl (ToString (obj_get props ''borderRadius'')) \<or>
       isl (ToString (obj_get props ''hideOnMobile'')) \<or>
       (truthy (obj_get props ''label'') \<and>
          (isl (ToString (obj_get props ''labelFontSize'')) \<or>
           isl (ToString (obj_get props ''labelFontWeight'')))))"
    by (rule ImageGalleryItem_throws)
next
  fix tile
  assume r: "ImageGalleryItem props ref = Inr tile"
  let ?c = "obj_get props ''columnSpan''"
  let ?b = "obj_get props ''borderRadius''"
  let ?h = "obj_get props ''hideOnMobile''"
  obtain kc kb kh where kc: "ToString ?c = Inr kc" and kb: "ToString ?b = Inr kb"
    and kh: "ToString ?h = Inr kh"
    and cls: "obj_get (element_props (child 0 tile)) ''className'' =
       Str (''relative overflow-hidden relative h-[--image-height]'' @
            class_suffix (selected columnSpan_table ''1'' ?c kc) @
            class_suffix (selected borderRadius_table ''8'' ?b kb) @
            class_suffix (selected hideOnMobile_table ''false'' ?h kh))"
    using container_class_rendered [OF r] by blast
  let ?C = "if kc = ''1'' then ''col-span-1'' else if kc = ''2'' then ''col-span-2''
            else if kc = ''3'' then ''col-span-3'' else if kc = ''4'' then ''col-span-4''
            else if ?c = Undefined \<or> ?c = NaN \<or> ?c = Str [] then ''col-span-1'' else []"
  let ?R = "if kb = ''0'' then [] else if kb = ''2'' then ''rounded-sm''
            else if kb = ''4'' then ''rounded'' else if kb = ''6'' then ''rounded-md''
            else if kb = ''8'' then ''rounded-lg'' else if kb = ''10'' then ''rounded-[10px]''
            else if kb = ''12'' then ''rounded-xl'' else if kb = ''14'' then ''rounded-[14px]''
            else if kb = ''16'' then ''rounded-2xl'' else if kb = ''18'' then ''rounded-[18px]''
            else if kb = ''20'' then ''rounded-[20px]'' else if kb = ''22'' then ''rounded-[22px]''
            else if kb = ''24'' then ''rounded-3xl''
            else if ?b = Undefined \<or> ?b = NaN \<or> ?b = Str [] then ''rounded-lg'' else []"
  let ?H = "if kh = ''true'' then ''hidden sm:block'' else []"
  have c: "obj_get (element_props (child 0 tile)) ''className'' =
           Str (''relative overflow-hidden relative h-[--image-height]'' @
                (if ?C = [] then [] else '' '' @ ?C) @
                (if ?R = [] then [] else '' '' @ ?R) @
                (if ?H = [] then [] else '' '' @ ?H))"
    unfolding cls
    by (simp only: columnSpan_selected [OF kc] borderRadius_selected [OF kb]
        hideOnMobile_selected [OF kh] Let_def)
  have cn: "?C = (if n = 1 then ''col-span-1'' else if n = 2 then ''col-span-2''
                 else if n = 3 then ''col-span-3'' else if n = 4 then ''col-span-4'' else [])"
    if "?c = Num n" for n
  proof -
    from that kc have "kc = NumberToString n" by simp
    then show ?thesis using that by (simp add: key_is_NumberToString)
  qed
  have rn: "?R = (if n = 0 then [] else if n = 2 then ''rounded-sm''
                 else if n = 4 then ''rounded'' else if n = 6 then ''rounded-md''
                 else if n = 8 then ''rounded-lg'' else if n = 10 then ''rounded-[10px]''
                 else if n = 12 then ''rounded-xl'' else if n = 14 then ''rounded-[14px]''
                 else if n = 16 then ''rounded-2xl'' else if n = 18 then ''rounded-[18px]''
                 else if n = 20 then ''rounded-[20px]'' else if n = 22 then ''rounded-[22px]''
                 else if n = 24 then ''rounded-3xl'' else [])"
    if "?b = Num n" for n
  proof -
    from that kb have "kb = NumberToString n" by simp
    then show ?thesis using that by (simp add: key_is_NumberToString)
  qed
  show "\<exists>C R H.
         obj_get (element_props (child 0 tile)) ''className'' =
           Str (''relative overflow-hidden relative h-[--image-height]'' @
                (if C = [] then [] else '' '' @ C) @
                (if R = [] then [] else '' '' @ R) @
                (if H = [] then [] else '' '' @ H)) \<and>
         (\<forall>n. obj_get props ''columnSpan'' = Num n \<longrightarrow>
            C = (if n = 1 then ''col-span-1'' else if n = 2 then ''col-span-2''
                 else if n = 3 then ''col-span-3'' else if n = 4 then ''col-span-4'' else [])) \<and>
         (\<forall>n. obj_get props ''borderRadius'' = Num n \<longrightarrow>
            R = (if n = 0 then [] else if n = 2 then ''rounded-sm''
                 else if n = 4 then ''rounded'' else if n = 6 then ''rounded-md''
                 else if n = 8 then ''rounded-lg'' else if n = 10 then ''rounded-[10px]''
                 else if n = 12 then ''rounded-xl'' else if n = 14 then ''rounded-[14px]''
                 else if n = 16 then ''rounded-2xl'' else if n = 18 then ''rounded-[18px]''
                 else if n = 20 then ''rounded-[20px]'' else if n = 22 then ''rounded-[22px]''
                 else if n = 24 then ''rounded-3xl'' else [])) \<and>
         (\<forall>k. ToString (obj_get props ''columnSpan'') = Inr k \<longrightarrow>
            C = (if k = ''1'' then ''col-span-1'' else if k = ''2'' then ''col-span-2''
                 else if k = ''3'' then ''col-span-3'' else if k = ''4'' then ''col-span-4''
                 else if obj_get props ''columnSpan'' = Undefined \<or>
                         obj_get props ''columnSpan'' = NaN \<or>
                         obj_get props ''columnSpan'' = Str [] then ''col-span-1''
                 else [])) \<and>
         (\<forall>k. ToString (obj_get props ''borderRadius'') = Inr k \<longrightarrow>
            R = (if k = ''0'' then [] else if k = ''2'' then ''rounded-sm''
                 else if k = ''4'' then ''rounded'' else if k = ''6'' then ''rounded-md''
                 else if k = ''8'' then ''rounded-lg'' else if k = ''10'' then ''rounded-[10px]''
                 else if k = ''12'' then ''rounded-xl'' else if k = ''14'' then ''rounded-[14px]''
                 else if k = ''16'' then ''rounded-2xl'' else if k = ''18'' then ''rounded-[18px]''
                 else if k = ''20'' then ''rounded-[20px]'' else if k = ''22'' then ''rounded-[22px]''
                 else if k = ''24'' then ''rounded-3xl''
                 else if obj_get props ''borderRadius'' = Undefined \<or>
                         obj_get props ''borderRadius'' = NaN \<or>
                         obj_get props ''borderRadius'' = Str [] then ''rounded-lg''
                 else [])) \<and>
         (\<forall>k. ToString (obj_get props ''hideOnMobile'') = Inr k \<longrightarrow>
            H = (if k = ''true'' then ''hidden sm:block'' else []))"
    apply (rule exI [of _ ?C])
    apply (rule exI [of _ ?R])
    apply (rule exI [of _ ?H])
    apply (intro conjI allI impI)
         apply (rule c)
        apply (erule cn)
       apply (erule rn)
      apply (simp only: kc sum.inject)
     apply (simp only: kb sum.inject)
    apply (simp only: kh sum.inject)
    done
qed

theorem C3_variant_classes_witness:
  "ImageGalleryItem
     [(''src'', Str ''a.jpg''), (''columnSpan'', Num 2), (''borderRadius'', Num 4)]
     (Null :: unit jsval) =
   Inr (Element ''div''
     [(''className'', Str ''flex flex-col''),
      (''children'', Arr
         [Element ''div''
            [(''className'',
                Str ''relative overflow-hidden relative h-[--image-height] col-span-2 rounded''),
             (''children'', Element ''Image''
                (image_config [] Null (Obj [(''url'', Str ''a.jpg''), (''altText'', Str ''a.jpg'')])))],
          Undefined])]) \<and>
   ImageGalleryItem
     [(''src'', Str ''a.jpg''), (''columnSpan'', Num 7), (''borderRadius'', Num 5)]
     (Null :: unit jsval) =
   Inr (Element ''div''
     [(''className'', Str ''flex flex-col''),
      (''children'', Arr
         [Element ''div''
            [(''className'', Str ''relative overflow-hidden relative h-[--image-height]''),
             (''children'', Element ''Image''
                (image_config [] Null (Obj [(''url'', Str ''a.jpg''), (''altText'', Str ''a.jpg'')])))],
          Undefined])])"
proof -
  have c2: "container_className (Num 2 :: unit jsval) (Num 4) Undefined =
      Inr ''relative overflow-hidden relative h-[--image-height] col-span-2 rounded''"
    unfolding container_className_eq
    by (simp add: selected_def takes_default_def class_suffix_def columnSpan_table_def
        borderRadius_table_def hideOnMobile_table_def NumberToString_values)
  have c7: "container_className (Num 7 :: unit jsval) (Num 5) Undefined =
      Inr ''relative overflow-hidden relative h-[--image-height]''"
    unfolding container_className_eq
    by (simp add: selected_def takes_default_def class_suffix_def columnSpan_table_def
        borderRadius_table_def hideOnMobile_table_def key_is_NumberToString)
  show ?thesis
    using C3_variant_classes
      [of "[(''src'', Str ''a.jpg''), (''columnSpan'', Num 2), (''borderRadius'', Num 4)] :: unit obj"
        Null]
    by (simp add: ImageGalleryItem_def Let_def obj_get_def c2 c7 caption_def with_default_def
        obj_rest_def ImageGalleryItem_params_def normalize_src_def)
qed

text \<open>
  The claim as stated fails at \<open>columnSpan = {toString: null}\<close>, a value outside the
  enumeration: its conversion to a property key throws, and so does the render.
\<close>

theorem C3_unconvertible_columnSpan_counterexample:
  "ImageGalleryItem
     [(''src'', Str ''a.jpg''), (''columnSpan'', Obj [(''toString'', Null)])]
     (Null :: unit jsval) = Inl TypeError"
  by (simp add: ImageGalleryItem_def Let_def obj_get_def container_className_eq)

section \<open>The image tile: image element and caption\<close>

lemma ImageGalleryItem_renders:
  assumes "\<not> isl (ToString (obj_get props ''columnSpan''))"
    and "\<not> isl (ToString (obj_get props ''borderRadius''))"
    and "\<not> isl (ToString (obj_get props ''hideOnMobile''))"
    and "\<not> isl (ToString (obj_get props ''labelFontSize''))"
    and "\<not> isl (ToString (obj_get props ''labelFontWeight''))"
  shows "\<exists>tile. ImageGalleryItem props ref = Inr tile"
proof (cases "ImageGalleryItem props ref")
  case (Inl e)
  then have "ImageGalleryItem props ref = Inl TypeError" by (simp add: error_unique)
  with assms show ?thesis by (simp add: ImageGalleryItem_throws)
next
  case (Inr tile)
  then show ?thesis by blast
qed

lemma map_of_image_config:
  "distinct (map fst rest) \<Longrightarrow>
   map_of (image_config rest ref data) k =
     (if k = ''sizes'' then Some (Str ''(min-width: 45em) 50vw, 100vw'')
      else if k = ''height'' then Some (Num 600)
      else if k = ''width'' then Some (Num 800)
      else if k = ''data'' then Some data
      else if k = ''loading'' then Some (Str ''lazy'')
      else if k = ''data-motion'' then Some (Str ''slide-in'')
      else if k = ''className'' then
        Some (Str ''w-full h-full object-cover transition-transform duration-300 hover:scale-105'')
      else (case map_of rest k of None \<Rightarrow> (if k = ''ref'' then Some ref else None)
            | Some v \<Rightarrow> Some v))"
proof -
  assume d: "distinct (map fst rest)"
  have sp: "map_of (obj_spread [(''ref'', ref)] rest) k' =
      (case map_of rest k' of None \<Rightarrow> (if k' = ''ref'' then Some ref else None)
       | Some v \<Rightarrow> Some v)" for k'
    using map_of_obj_spread [OF d, of "[(''ref'', ref)]" k'] by (auto split: option.splits)
  show ?thesis
    unfolding image_config_def obj_spread_Cons obj_spread_Nil map_of_obj_set fun_upd_apply sp
    by simp
qed

lemma image_config_data: "obj_get (image_config rest ref data) ''data'' = data"
  unfolding image_config_def obj_spread_Cons obj_spread_Nil
  by (simp add: obj_get_def map_of_obj_set)

lemma image_element:
  assumes "ImageGalleryItem props ref = Inr tile"
  shows "child 0 (child 0 tile) =
     Element ''Image'' (image_config (obj_rest ImageGalleryItem_params props) ref
       (normalize_src (obj_get props ''src'')))"
proof -
  obtain cc cap where "tile = Element ''div''
       [(''className'', Str ''flex flex-col''),
        (''children'', Arr
           [Element ''div''
              [(''className'', Str cc),
               (''children'', Element ''Image''
                  (image_config (obj_rest ImageGalleryItem_params props) ref
                     (normalize_src (obj_get props ''src''))))],
            cap])]"
    using ImageGalleryItem_Inr [OF assms] by blast
  then show ?thesis by (simp only: tile_parts child_single)
qed

lemma caption_slot:
  assumes "ImageGalleryItem props ref = Inr tile"
  shows "caption (obj_get props ''label'')
       (with_default (obj_get props ''labelFontSize'') (Str ''base''))
       (obj_get props ''labelColor'')
       (with_default (obj_get props ''labelFontWeight'') (Str ''normal'')) =
     Inr (child (Suc 0) tile)"
    and "length (element_children tile) = 2"
proof -
  obtain cc cap where cap: "caption (obj_get props ''label'')
       (with_default (obj_get props ''labelFontSize'') (Str ''base''))
       (obj_get props ''labelColor'')
       (with_default (obj_get props ''labelFontWeight'') (Str ''normal'')) = Inr cap"
    and tile: "tile = Element ''div''
       [(''className'', Str ''flex flex-col''),
        (''children'', Arr
           [Element ''div''
              [(''className'', Str cc),
               (''children'', Element ''Image''
                  (image_config (obj_rest ImageGalleryItem_params props) ref
                     (normalize_src (obj_get props ''src''))))],
            cap])]"
    using ImageGalleryItem_Inr [OF assms] by blast
  show "caption (obj_get props ''label'')
       (with_default (obj_get props ''labelFontSize'') (Str ''base''))
       (obj_get props ''labelColor'')
       (with_default (obj_get props ''labelFontWeight'') (Str ''normal'')) =
     Inr (child (Suc 0) tile)"
    unfolding tile tile_parts by (rule cap)
  show "length (element_children tile) = 2"
    unfolding tile by (rule tile_parts)
qed

lemma caption_falsy: "\<not> truthy l \<Longrightarrow> caption l fs col fw = Inr l"
  by (simp add: caption_def)

lemma caption_truthy:
  assumes "truthy l" and "caption l fs col fw = Inr cap"
  shows "\<exists>sizeKey weightKey. ToString fs = Inr sizeKey \<and> ToString fw = Inr weightKey \<and>
     cap = Element ''div''
       [(''className'', Str (clsx [Some ''mt-2 text-center font-sans'',
                                   map_of fontSizeClasses sizeKey,
                                   map_of fontWeightClasses weightKey])),
        (''style'', if truthy col then Obj [(''color'', col)] else Undefined),
        (''children'', l)]"
  using assms by (auto simp add: caption_def split: sum.splits)

lemma child_text:
  "child 0 (Element t [(''className'', c), (''style'', st), (''children'', Str s)]) = Str s"
  by (simp add: child_def element_children_def)

lemma default_typography:
  "clsx [Some ''mt-2 text-center font-sans'', map_of fontSizeClasses ''base'',
         map_of fontWeightClasses ''normal''] =
   ''mt-2 text-center font-sans text-base font-normal''"
  by (simp add: clsx_def fontSizeClasses_def fontWeightClasses_def)

text \<open>
  C4. Whenever the tile renders, a \<open>src\<close> given as a bare string \<open>s\<close> reaches the image
  renderer as the record \<open>{url: s, altText: s}\<close> in the \<open>data\<close> attribute, and a \<open>src\<close> that
  is already a record is passed through unchanged.
\<close>

theorem C4_src_normalized:
  assumes "ImageGalleryItem props ref = Inr tile"
  shows "(obj_get props ''src'' = Str s \<longrightarrow>
      obj_get (element_props (child 0 (child 0 tile))) ''data'' =
        Obj [(''url'', Str s), (''altText'', Str s)]) \<and>
   (obj_get props ''src'' = Obj r \<longrightarrow>
      obj_get (element_props (child 0 (child 0 tile))) ''data'' = Obj r)"
  by (simp add: image_element [OF assms] image_config_data normalize_src_def)

theorem C4_src_normalized_witness:
  "(\<exists>tile. ImageGalleryItem [(''src'', Str ''foo.jpg'')] (Null :: unit jsval) = Inr tile \<and>
      obj_get [(''src'', Str ''foo.jpg'')] ''src'' = (Str ''foo.jpg'' :: unit jsval) \<and>
      obj_get (element_props (child 0 (child 0 tile))) ''data'' =
        Obj [(''url'', Str ''foo.jpg''), (''altText'', Str ''foo.jpg'')]) \<and>
   (\<exists>tile. ImageGalleryItem
        [(''src'', Obj [(''url'', Str ''u''), (''altText'', Str ''a''), (''width'', Num 3)])]
        (Null :: unit jsval) = Inr tile \<and>
      obj_get [(''src'', Obj [(''url'', Str ''u''), (''altText'', Str ''a''), (''width'', Num 3)])]
        ''src'' = (Obj [(''url'', Str ''u''), (''altText'', Str ''a''), (''width'', Num 3)]
                   :: unit jsval) \<and>
      obj_get (element_props (child 0 (child 0 tile))) ''data'' =
        Obj [(''url'', Str ''u''), (''altText'', Str ''a''), (''width'', Num 3)])"
proof -
  let ?P1 = "[(''src'', Str ''foo.jpg'')] :: unit obj"
  let ?P2 = "[(''src'', Obj [(''url'', Str ''u''), (''altText'', Str ''a''), (''width'', Num 3)])]
             :: unit obj"
  obtain t1 where t1: "ImageGalleryItem ?P1 Null = Inr t1"
    using ImageGalleryItem_renders [of ?P1 Null] by (auto simp add: obj_get_def)
  obtain t2 where t2: "ImageGalleryItem ?P2 Null = Inr t2"
    using ImageGalleryItem_renders [of ?P2 Null] by (auto simp add: obj_get_def)
  have s1: "obj_get ?P1 ''src'' = Str ''foo.jpg''" by (simp add: obj_get_def)
  have s2: "obj_get ?P2 ''src'' =
      Obj [(''url'', Str ''u''), (''altText'', Str ''a''), (''width'', Num 3)]"
    by (simp add: obj_get_def)
  from C4_src_normalized [OF t1, of "''foo.jpg''"] s1
  have d1: "obj_get (element_props (child 0 (child 0 t1))) ''data'' =
        Obj [(''url'', Str ''foo.jpg''), (''altText'', Str ''foo.jpg'')]" by blast
  from C4_src_normalized [OF t2] s2
  have d2: "obj_get (element_props (child 0 (child 0 t2))) ''data'' =
        Obj [(''url'', Str ''u''), (''altText'', Str ''a''), (''width'', Num 3)]" by blast
  show ?thesis using t1 t2 s1 s2 d1 d2 by blast
qed

text \<open>
  C5. Whenever the tile renders it has two children, the image container and the caption
  slot. When \<open>label\<close> is absent or the empty string the slot holds that value and no
  element. When \<open>label\<close> is a non-empty string the slot holds one caption element whose
  content is the label, and with \<open>labelFontSize\<close> and \<open>labelFontWeight\<close> omitted its class
  is the base classes followed by \<open>text-base\<close> and \<open>font-normal\<close>.
\<close>

theorem C5_caption:
  assumes "ImageGalleryItem props ref = Inr tile"
  shows "length (element_children tile) = 2 \<and>
   (obj_get props ''label'' = Undefined \<or> obj_get props ''label'' = Str '''' \<longrightarrow>
      \<not> is_element (child 1 tile) \<and> child 1 tile = obj_get props ''label'') \<and>
   (s \<noteq> [] \<longrightarrow> obj_get props ''label'' = Str s \<longrightarrow>
      is_element (child 1 tile) \<and>
      child 0 (child 1 tile) = Str s \<and>
      (obj_get props ''labelFontSize'' = Undefined \<longrightarrow>
       obj_get props ''labelFontWeight'' = Undefined \<longrightarrow>
         child 1 tile =
           Element ''div''
             [(''className'', Str ''mt-2 text-center font-sans text-base font-normal''),
              (''style'', if truthy (obj_get props ''labelColor'')
                          then Obj [(''color'', obj_get props ''labelColor'')] else Undefined),
              (''children'', Str s)]))"
proof -
  note cap = caption_slot(1) [OF assms]
  have none: "\<not> is_element (child 1 tile) \<and> child 1 tile = obj_get props ''label''"
    if "obj_get props ''label'' = Undefined \<or> obj_get props ''label'' = Str ''''"
  proof -
    from that have f: "\<not> truthy (obj_get props ''label'')" by auto
    from cap have eq: "child (Suc 0) tile = obj_get props ''label''"
      by (simp add: caption_falsy [OF f])
    from that show ?thesis unfolding One_nat_def eq by auto
  qed
  have some: "is_element (child 1 tile) \<and> child 0 (child 1 tile) = Str s"
    if "s \<noteq> []" "obj_get props ''label'' = Str s"
  proof -
    from that have t: "truthy (obj_get props ''label'')" by simp
    from caption_truthy [OF t cap] that(2) show ?thesis
      by (auto simp add: child_text)
  qed
  have dflt: "child 1 tile =
           Element ''div''
             [(''className'', Str ''mt-2 text-center font-sans text-base font-normal''),
              (''style'', if truthy (obj_get props ''labelColor'')
                          then Obj [(''color'', obj_get props ''labelColor'')] else Undefined),
              (''children'', Str s)]"
    if "s \<noteq> []" "obj_get props ''label'' = Str s"
      "obj_get props ''labelFontSize'' = Undefined" "obj_get props ''labelFontWeight'' = Undefined"
  proof -
    from that have t: "truthy (obj_get props ''label'')" by simp
    from caption_truthy [OF t cap] that show ?thesis
      by (auto simp add: with_default_def default_typography)
  qed
  show ?thesis
    using none some dflt caption_slot(2) [OF assms] by blast
qed

theorem C5_caption_witness:
  "(\<exists>tile. ImageGalleryItem [(''src'', Str ''a.jpg'')] (Null :: unit jsval) = Inr tile \<and>
      obj_get [(''src'', Str ''a.jpg'')] ''label'' = (Undefined :: unit jsval) \<and>
      \<not> is_element (child 1 tile)) \<and>
   (\<exists>tile. ImageGalleryItem [(''src'', Str ''a.jpg''), (''label'', Str ''Caption'')]
        (Null :: unit jsval) = Inr tile \<and>
      ''Caption'' \<noteq> [] \<and>
      obj_get [(''src'', Str ''a.jpg''), (''label'', Str ''Caption'')] ''label'' =
        (Str ''Caption'' :: unit jsval) \<and>
      obj_get [(''src'', Str ''a.jpg''), (''label'', Str ''Caption'')] ''labelFontSize'' =
        (Undefined :: unit jsval) \<and>
      obj_get [(''src'', Str ''a.jpg''), (''label'', Str ''Caption'')] ''labelFontWeight'' =
        (Undefined :: unit jsval) \<and>
      child 1 tile =
        Element ''div''
          [(''className'', Str ''mt-2 text-center font-sans text-base font-normal''),
           (''style'', Undefined),
           (''children'', Str ''Caption'')])"
proof -
  let ?P1 = "[(''src'', Str ''a.jpg'')] :: unit obj"
  let ?P2 = "[(''src'', Str ''a.jpg''), (''label'', Str ''Caption'')] :: unit obj"
  obtain t1 where t1: "ImageGalleryItem ?P1 Null = Inr t1"
    using ImageGalleryItem_renders [of ?P1 Null] by (auto simp add: obj_get_def)
  obtain t2 where t2: "ImageGalleryItem ?P2 Null = Inr t2"
    using ImageGalleryItem_renders [of ?P2 Null] by (auto simp add: obj_get_def)
  have l1: "obj_get ?P1 ''label'' = Undefined" by (simp add: obj_get_def)
  have l2: "obj_get ?P2 ''label'' = Str ''Caption''"
    "obj_get ?P2 ''labelFontSize'' = Undefined" "obj_get ?P2 ''labelFontWeight'' = Undefined"
    "obj_get ?P2 ''labelColor'' = Undefined"
    by (simp_all add: obj_get_def)
  from C5_caption [OF t1] l1 have n1: "\<not> is_element (child 1 t1)" by blast
  from C5_caption [OF t2, of "''Caption''"] l2
  have c2: "child 1 t2 =
        Element ''div''
          [(''className'', Str ''mt-2 text-center font-sans text-base font-normal''),
           (''style'', Undefined),
           (''children'', Str ''Caption'')]" by simp
  show ?thesis using t1 t2 l1 l2 n1 c2 by blast
qed

text \<open>
  C10. On a rendered caption the \<open>style\<close> attribute is \<open>undefined\<close> when \<open>labelColor\<close> is
  absent or the empty string, and is \<open>{color: c}\<close> when \<open>labelColor\<close> is a non-empty
  string \<open>c\<close>.
\<close>

theorem C10_caption_color:
  assumes "ImageGalleryItem props ref = Inr tile" and "truthy (obj_get props ''label'')"
  shows "(obj_get props ''labelColor'' = Undefined \<or> obj_get props ''labelColor'' = Str '''' \<longrightarrow>
            obj_get (element_props (child 1 tile)) ''style'' = Undefined) \<and>
         (c \<noteq> [] \<longrightarrow> obj_get props ''labelColor'' = Str c \<longrightarrow>
            obj_get (element_props (child 1 tile)) ''style'' = Obj [(''color'', Str c)])"
  using caption_truthy [OF assms(2) caption_slot(1) [OF assms(1)]]
  by (auto simp add: obj_get_Cons)

theorem C10_caption_color_witness:
  "(\<exists>tile. ImageGalleryItem [(''label'', Str ''Caption''), (''labelColor'', Str ''#ff0000'')]
        (Null :: unit jsval) = Inr tile \<and>
      truthy (obj_get [(''label'', Str ''Caption''), (''labelColor'', Str ''#ff0000'')] ''label''
        :: unit jsval) \<and>
      ''#ff0000'' \<noteq> [] \<and>
      obj_get [(''label'', Str ''Caption''), (''labelColor'', Str ''#ff0000'')] ''labelColor'' =
        (Str ''#ff0000'' :: unit jsval) \<and>
      obj_get (element_props (child 1 tile)) ''style'' = Obj [(''color'', Str ''#ff0000'')]) \<and>
   (\<exists>tile. ImageGalleryItem [(''label'', Str ''Caption''), (''labelColor'', Str '''')]
        (Null :: unit jsval) = Inr tile \<and>
      truthy (obj_get [(''label'', Str ''Caption''), (''labelColor'', Str '''')] ''label''
        :: unit jsval) \<and>
      obj_get [(''label'', Str ''Caption''), (''labelColor'', Str '''')] ''labelColor'' =
        (Str '''' :: unit jsval) \<and>
      obj_get (element_props (child 1 tile)) ''style'' = Undefined)"
proof -
  let ?P1 = "[(''label'', Str ''Caption''), (''labelColor'', Str ''#ff0000'')] :: unit obj"
  let ?P2 = "[(''label'', Str ''Caption''), (''labelColor'', Str '''')] :: unit obj"
  obtain t1 where t1: "ImageGalleryItem ?P1 Null = Inr t1"
    using ImageGalleryItem_renders [of ?P1 Null] by (auto simp add: obj_get_def)
  obtain t2 where t2: "ImageGalleryItem ?P2 Null = Inr t2"
    using ImageGalleryItem_renders [of ?P2 Null] by (auto simp add: obj_get_def)
  have a: "truthy (obj_get ?P1 ''label'')" "obj_get ?P1 ''labelColor'' = Str ''#ff0000''"
    by (simp_all add: obj_get_def)
  have b: "truthy (obj_get ?P2 ''label'')" "obj_get ?P2 ''labelColor'' = Str ''''"
    by (simp_all add: obj_get_def)
  from C10_caption_color [OF t1 a(1), of "''#ff0000''"] a(2)
  have s1: "obj_get (element_props (child 1 t1)) ''style'' = Obj [(''color'', Str ''#ff0000'')]"
    by simp
  from C10_caption_color [OF t2 b(1)] b(2)
  have s2: "obj_get (element_props (child 1 t2)) ''style'' = Undefined" by simp
  show ?thesis using t1 t2 a b s1 s2 by blast
qed

section \<open>The image tile: the two defaults of the corner radius\<close>

lemma container_className_default_radius:
  "container_className c Undefined h = container_className c (Num 8) h"
  unfolding container_className_eq
  by (simp add: selected_def takes_default_def NumberToString_values split: sum.splits)

lemma borderRadius_omitted:
  "class_suffix (selected borderRadius_table ''8'' Undefined ''undefined'') = '' rounded-lg''"
  by (simp add: selected_def takes_default_def class_suffix_def borderRadius_table_def)

lemma schema_default_borderRadius:
  "schema_default image_schema ''borderRadius'' = Some (Num 0)"
  by (simp add: schema_default_def schema_inputs_def image_schema_def)

lemma container_className_defaults:
  "container_className Undefined Undefined Undefined =
     Inr ''relative overflow-hidden relative h-[--image-height] col-span-1 rounded-lg''"
  "container_className Undefined (Num 8) Undefined =
     Inr ''relative overflow-hidden relative h-[--image-height] col-span-1 rounded-lg''"
  "container_className Undefined (Num 0) Undefined =
     Inr ''relative overflow-hidden relative h-[--image-height] col-span-1''"
  unfolding container_className_eq
  by (simp_all add: selected_def takes_default_def class_suffix_def columnSpan_table_def
      borderRadius_table_def hideOnMobile_table_def NumberToString_values)

text \<open>
  C6. Whenever the tile renders with \<open>borderRadius\<close> omitted, the container's class carries
  \<open>rounded-lg\<close> between the classes of the other two variants and is the class computed for
  \<open>borderRadius = 8\<close>: the lookup gives \<open>rounded-lg\<close>, the class of the render-time default
  8 of \<open>defaultVariants\<close>. The schema declares the default 0 for the same input, whose
  class is the empty one: the two defaults differ.
\<close>

theorem C6_borderRadius_defaults:
  assumes "ImageGalleryItem props ref = Inr tile"
    and "obj_get props ''borderRadius'' = Undefined"
  shows "(\<exists>C H. obj_get (element_props (child 0 tile)) ''className'' =
        Str (''relative overflow-hidden relative h-[--image-height]'' @
             (if C = [] then [] else '' '' @ C) @ '' rounded-lg'' @
             (if H = [] then [] else '' '' @ H))) \<and>
    (\<exists>cls. container_className (obj_get props ''columnSpan'') (Num 8)
              (obj_get props ''hideOnMobile'') = Inr cls \<and>
           obj_get (element_props (child 0 tile)) ''className'' = Str cls) \<and>
    getVariantClassName image_defaultVariants
      [(''columnSpan'', obj_get props ''columnSpan''),
       (''borderRadius'', obj_get props ''borderRadius''),
       (''hideOnMobile'', obj_get props ''hideOnMobile'')]
      (''borderRadius'', borderRadius_table) = Inr (Some ''rounded-lg'') \<and>
    obj_get (image_defaultVariants :: 'a obj) ''borderRadius'' = Num 8 \<and>
    schema_default (image_schema :: 'a schema) ''borderRadius'' = Some (Num 0) \<and>
    (Num 8 :: 'a jsval) \<noteq> Num 0 \<and>
    getVariantClassName image_defaultVariants
      [(''columnSpan'', obj_get props ''columnSpan''),
       (''borderRadius'', Num 0 :: 'a jsval),
       (''hideOnMobile'', obj_get props ''hideOnMobile'')]
      (''borderRadius'', borderRadius_table) = Inr (Some '''')"
proof -
  let ?c = "obj_get props ''columnSpan''"
  let ?h = "obj_get props ''hideOnMobile''"
  obtain kc kb kh where kc: "ToString ?c = Inr kc"
    and kb: "ToString (obj_get props ''borderRadius'') = Inr kb"
    and kh: "ToString ?h = Inr kh"
    and cls: "obj_get (element_props (child 0 tile)) ''className'' =
       Str (''relative overflow-hidden relative h-[--image-height]'' @
            class_suffix (selected columnSpan_table ''1'' ?c kc) @
            class_suffix (selected borderRadius_table ''8'' (obj_get props ''borderRadius'') kb) @
            class_suffix (selected hideOnMobile_table ''false'' ?h kh))"
    using container_class_rendered [OF assms(1)] by blast
  from kb assms(2) have kbu: "kb = ''undefined''" by simp
  have explicit: "\<exists>C H. obj_get (element_props (child 0 tile)) ''className'' =
        Str (''relative overflow-hidden relative h-[--image-height]'' @
             (if C = [] then [] else '' '' @ C) @ '' rounded-lg'' @
             (if H = [] then [] else '' '' @ H))"
    unfolding cls assms(2) kbu borderRadius_omitted
      columnSpan_selected [OF kc] hideOnMobile_selected [OF kh] Let_def
    by blast
  obtain cc cap where cc: "container_className ?c (obj_get props ''borderRadius'') ?h = Inr cc"
    and tile: "tile = Element ''div''
       [(''className'', Str ''flex flex-col''),
        (''children'', Arr
           [Element ''div''
              [(''className'', Str cc),
               (''children'', Element ''Image''
                  (image_config (obj_rest ImageGalleryItem_params props) ref
                     (normalize_src (obj_get props ''src''))))],
            cap])]"
    using ImageGalleryItem_Inr [OF assms(1)] by blast
  have rendered: "obj_get (element_props (child 0 tile)) ''className'' = Str cc"
    unfolding tile tile_parts by (simp add: obj_get_Cons)
  from cc have cc8: "container_className ?c (Num 8) ?h = Inr cc"
    unfolding assms(2) container_className_default_radius .
  have same: "\<exists>cls. container_className ?c (Num 8) ?h = Inr cls \<and>
           obj_get (element_props (child 0 tile)) ''className'' = Str cls"
    using cc8 rendered by blast
  have g: "obj_get [(''columnSpan'', ?c), (''borderRadius'', v), (''hideOnMobile'', ?h)]
             ''borderRadius'' = v" for v :: "'a jsval"
    by (simp add: obj_get_def)
  have lookup: "getVariantClassName image_defaultVariants
      [(''columnSpan'', ?c), (''borderRadius'', obj_get props ''borderRadius''),
       (''hideOnMobile'', ?h)]
      (''borderRadius'', borderRadius_table) = Inr (Some ''rounded-lg'')"
    unfolding getVariantClassName_selected [OF image_default_keys(2)] g assms(2)
    by (simp add: selected_def takes_default_def borderRadius_table_def)
  have lookup0: "getVariantClassName image_defaultVariants
      [(''columnSpan'', ?c), (''borderRadius'', Num 0 :: 'a jsval), (''hideOnMobile'', ?h)]
      (''borderRadius'', borderRadius_table) = Inr (Some '''')"
    unfolding getVariantClassName_selected [OF image_default_keys(2)] g
    by (simp add: selected_def takes_default_def borderRadius_table_def NumberToString_values)
  have dflt: "obj_get (image_defaultVariants :: 'a obj) ''borderRadius'' = Num 8"
    by (simp add: image_defaultVariants_def obj_get_def)
  show ?thesis
    using explicit same lookup lookup0 dflt schema_default_borderRadius by simp
qed

theorem C6_borderRadius_defaults_witness:
  "\<exists>tile. ImageGalleryItem [(''src'', Str ''a.jpg'')] (Null :: unit jsval) = Inr tile \<and>
     obj_get [(''src'', Str ''a.jpg'')] ''borderRadius'' = (Undefined :: unit jsval) \<and>
     obj_get (element_props (child 0 tile)) ''className'' =
       Str ''relative overflow-hidden relative h-[--image-height] col-span-1 rounded-lg'' \<and>
     schema_default (image_schema :: unit schema) ''borderRadius'' = Some (Num 0)"
proof -
  let ?P = "[(''src'', Str ''a.jpg'')] :: unit obj"
  obtain t where t: "ImageGalleryItem ?P Null = Inr t"
    using ImageGalleryItem_renders [of ?P Null] by (auto simp add: obj_get_def)
  have h: "obj_get ?P ''borderRadius'' = Undefined" by (simp add: obj_get_def)
  from C6_borderRadius_defaults [OF t h]
  have "obj_get (element_props (child 0 t)) ''className'' =
       Str ''relative overflow-hidden relative h-[--image-height] col-span-1 rounded-lg''"
    and "schema_default (image_schema :: unit schema) ''borderRadius'' = Some (Num 0)"
    by (auto simp add: obj_get_def container_className_defaults)
  with t h show ?thesis by blast
qed

section \<open>Property pass-through\<close>

lemma map_of_items_config:
  assumes d: "distinct (map fst props)"
  shows "map_of (obj_spread (obj_spread [(''ref'', ref)] (obj_rest TestimonialsItems_params props))
            [(''className'', c), (''children'', ch)]) k =
     (if k = ''children'' then Some ch
      else if k = ''className'' then Some c
      else if k = ''gap'' then None
      else (case map_of props k of None \<Rightarrow> (if k = ''ref'' then Some ref else None)
            | Some v \<Rightarrow> Some v))"
proof -
  have dr: "distinct (map fst (obj_rest TestimonialsItems_params props))"
    using d by (rule distinct_obj_rest)
  have sp: "map_of (obj_spread [(''ref'', ref)] (obj_rest TestimonialsItems_params props)) k' =
      (case (if k' \<in> set TestimonialsItems_params then None else map_of props k') of
         None \<Rightarrow> (if k' = ''ref'' then Some ref else None) | Some v \<Rightarrow> Some v)" for k'
    using map_of_obj_spread [OF dr, of "[(''ref'', ref)]" k']
    by (auto simp add: map_of_obj_rest split: option.splits)
  show ?thesis
    unfolding obj_spread_Cons obj_spread_Nil map_of_obj_set fun_upd_apply sp
    by (simp add: TestimonialsItems_params_def)
qed

lemma map_of_image_rest:
  assumes d: "distinct (map fst props)" and r: "ImageGalleryItem props ref = Inr tile"
  shows "map_of (element_props (child 0 (child 0 tile))) k =
     (if k = ''sizes'' then Some (Str ''(min-width: 45em) 50vw, 100vw'')
      else if k = ''height'' then Some (Num 600)
      else if k = ''width'' then Some (Num 800)
      else if k = ''data'' then Some (normalize_src (obj_get props ''src''))
      else if k = ''loading'' then Some (Str ''lazy'')
      else if k = ''data-motion'' then Some (Str ''slide-in'')
      else if k = ''className'' then
        Some (Str ''w-full h-full object-cover transition-transform duration-300 hover:scale-105'')
      else if k \<in> set ImageGalleryItem_params then None
      else (case map_of props k of None \<Rightarrow> (if k = ''ref'' then Some ref else None)
            | Some v \<Rightarrow> Some v))"
proof -
  have dr: "distinct (map fst (obj_rest ImageGalleryItem_params props))"
    using d by (rule distinct_obj_rest)
  have ref: "''ref'' \<notin> set ImageGalleryItem_params"
    by (simp add: ImageGalleryItem_params_def)
  show ?thesis
    unfolding image_element [OF r] element_props.simps map_of_image_config [OF dr]
      map_of_obj_rest
    using ref by auto
qed

text \<open>
  C8 (amended). A property of the props object (its keys distinct) whose name is neither a
  declared parameter nor an attribute the component writes itself after the spread reaches
  the target unmodified whenever the component renders: the root element of the grouped
  layout for every name but \<open>gap\<close>, \<open>children\<close> and \<open>className\<close>; the image renderer for
  every name but the eight declared parameters and \<open>className\<close>, \<open>data-motion\<close>, \<open>loading\<close>,
  \<open>data\<close>, \<open>width\<close>, \<open>height\<close> and \<open>sizes\<close>. The declared parameters are not forwarded: the
  root has no \<open>gap\<close> and its \<open>children\<close> are the three tracks; the image renderer gets none
  of the eight.
\<close>

theorem C8_forwarding:
  assumes "distinct (map fst props)"
  shows "(TestimonialsItems props ref = Inr root \<longrightarrow>
            (k \<notin> {''gap'', ''children'', ''className''} \<longrightarrow> map_of props k = Some v \<longrightarrow>
               map_of (element_props root) k = Some v) \<and>
            map_of (element_props root) ''gap'' = None \<and>
            (\<exists>t0 t1 t2. map_of (element_props root) ''children'' =
               Some (Arr [track_div t0, track_div t1, track_div t2]))) \<and>
         (ImageGalleryItem props ref = Inr tile \<longrightarrow>
            (k \<notin> set ImageGalleryItem_params \<union>
                  {''className'', ''data-motion'', ''loading'', ''data'', ''width'', ''height'',
                   ''sizes''} \<longrightarrow>
               map_of props k = Some v \<longrightarrow>
               map_of (element_props (child 0 (child 0 tile))) k = Some v) \<and>
            (\<forall>p \<in> set ImageGalleryItem_params.
               map_of (element_props (child 0 (child 0 tile))) p = None))"
proof -
  have items: "(k \<notin> {''gap'', ''children'', ''className''} \<longrightarrow> map_of props k = Some v \<longrightarrow>
               map_of (element_props root) k = Some v) \<and>
            map_of (element_props root) ''gap'' = None \<and>
            (\<exists>t0 t1 t2. map_of (element_props root) ''children'' =
               Some (Arr [track_div t0, track_div t1, track_div t2]))"
    if r: "TestimonialsItems props ref = Inr root"
  proof -
    obtain key t0 t1 t2 where root: "root = Element ''div''
     (obj_spread (obj_spread [(''ref'', ref)] (obj_rest TestimonialsItems_params props))
        [(''className'', Str (''grid lg:grid-cols-3'' @
             class_suffix (selected items_gap_table ''32'' (obj_get props ''gap'') key))),
         (''children'', Arr [track_div t0, track_div t1, track_div t2])])"
      using TestimonialsItems_Inr [OF r] by blast
    show ?thesis
      unfolding root element_props.simps map_of_items_config [OF assms] by auto
  qed
  have img: "(k \<notin> set ImageGalleryItem_params \<union>
                  {''className'', ''data-motion'', ''loading'', ''data'', ''width'', ''height'',
                   ''sizes''} \<longrightarrow>
               map_of props k = Some v \<longrightarrow>
               map_of (element_props (child 0 (child 0 tile))) k = Some v) \<and>
            (\<forall>p \<in> set ImageGalleryItem_params.
               map_of (element_props (child 0 (child 0 tile))) p = None)"
    if r: "ImageGalleryItem props ref = Inr tile"
    unfolding map_of_image_rest [OF assms r] by (simp add: ImageGalleryItem_params_def)
  show ?thesis using items img by blast
qed

theorem C8_forwarding_witness:
  "distinct (map fst
     [(''gap'', Num 16 :: unit jsval), (''children'', Arr []), (''src'', Str ''a.jpg''),
      (''data-testid'', Str ''t'')]) \<and>
   map_of [(''gap'', Num 16 :: unit jsval), (''children'', Arr []), (''src'', Str ''a.jpg''),
      (''data-testid'', Str ''t'')] ''data-testid'' = Some (Str ''t'') \<and>
   TestimonialsItems
     [(''gap'', Num 16 :: unit jsval), (''children'', Arr []), (''src'', Str ''a.jpg''),
      (''data-testid'', Str ''t'')] Null =
     Inr (Element ''div''
       [(''ref'', Null), (''src'', Str ''a.jpg''), (''data-testid'', Str ''t''),
        (''className'', Str ''grid lg:grid-cols-3 gap-4''),
        (''children'', Arr [track_div (Arr []), track_div (Arr []), track_div (Arr [])])]) \<and>
   (\<exists>tile. ImageGalleryItem
       [(''gap'', Num 16 :: unit jsval), (''children'', Arr []), (''src'', Str ''a.jpg''),
        (''data-testid'', Str ''t'')] Null = Inr tile \<and>
      map_of (element_props (child 0 (child 0 tile))) ''data-testid'' = Some (Str ''t'') \<and>
      map_of (element_props (child 0 (child 0 tile))) ''src'' = None)"
proof -
  let ?P = "[(''gap'', Num 16 :: unit jsval), (''children'', Arr []), (''src'', Str ''a.jpg''),
      (''data-testid'', Str ''t'')]"
  let ?R = "Element ''div''
       [(''ref'', Null :: unit jsval), (''src'', Str ''a.jpg''), (''data-testid'', Str ''t''),
        (''className'', Str ''grid lg:grid-cols-3 gap-4''),
        (''children'', Arr [track_div (Arr []), track_div (Arr []), track_div (Arr [])])]"
  have d: "distinct (map fst ?P)" by simp
  have r: "TestimonialsItems ?P Null = Inr ?R"
    by (simp add: TestimonialsItems_Arr [of _ "[]"] obj_get_def TestimonialsItems_params_def
        obj_rest_def obj_spread_def selected_def takes_default_def class_suffix_def
        items_gap_table_def NumberToString_keys)
  obtain t where t: "ImageGalleryItem ?P Null = Inr t"
    using ImageGalleryItem_renders [of ?P Null] by (auto simp add: obj_get_def)
  from C8_forwarding [OF d, where ref = Null and root = ?R and tile = t
      and k = "''data-testid''" and v = "Str ''t''"] r t
  have "map_of (element_props (child 0 (child 0 t))) ''data-testid'' = Some (Str ''t'')"
    and "map_of (element_props (child 0 (child 0 t))) ''src'' = None"
    by (simp_all add: ImageGalleryItem_params_def)
  with d r t show ?thesis by auto
qed

text \<open>
  The claim as stated fails for a property named \<open>className\<close>: it is not a declared
  parameter of the grouped layout, and the root element carries the layout's own class
  in its place.
\<close>

theorem C8_className_counterexample:
  "''className'' \<notin> set TestimonialsItems_params \<and>
   TestimonialsItems [(''className'', Str ''mine''), (''children'', Arr [])] (Null :: unit jsval) =
     Inr (Element ''div''
       [(''ref'', Null),
        (''className'', Str ''grid lg:grid-cols-3 gap-8''),
        (''children'', Arr [track_div (Arr []), track_div (Arr []), track_div (Arr [])])])"
  by (simp add: TestimonialsItems_Arr [of _ "[]"] obj_get_def TestimonialsItems_params_def
      obj_rest_def obj_spread_def selected_def takes_default_def class_suffix_def
      items_gap_table_def)

section \<open>Schema input names and component parameters\<close>

lemma image_schema_names:
  "schema_input_names image_schema =
     [''src'', ''label'', ''to'', ''columnSpan'', ''borderRadius'', ''hideOnMobile'',
      ''labelFontSize'', ''labelFontWeight'', ''labelColor'']"
  by (simp add: schema_input_names_def schema_inputs_def image_schema_def)

lemma items_schema_names: "schema_input_names items_schema = [''gap'']"
  by (simp add: schema_input_names_def schema_inputs_def items_schema_def)

lemma schema_names_synchronized_otherwise:
  "set (schema_input_names (image_schema :: unit schema)) - {''to''} = set ImageGalleryItem_params"
  "set (schema_input_names (items_schema :: unit schema)) \<subseteq> set TestimonialsItems_params"
  by (auto simp add: image_schema_names items_schema_names ImageGalleryItem_params_def
      TestimonialsItems_params_def)

text \<open>
  C9. The image tile's schema declares an input named \<open>to\<close>, which is not among the
  parameters the component destructures: at the schema's own default \<open>to = "/products"\<close>
  the value only travels to the image renderer with the other unrecognised properties.
\<close>

theorem C9_schema_input_to_not_consumed:
  "''to'' \<in> set (schema_input_names (image_schema :: unit schema)) \<and>
   ''to'' \<notin> set ImageGalleryItem_params \<and>
   ImageGalleryItem [(''src'', Str ''a.jpg''), (''to'', Str ''/products'')] (Null :: unit jsval) =
     Inr (Element ''div''
       [(''className'', Str ''flex flex-col''),
        (''children'', Arr
           [Element ''div''
              [(''className'',
                  Str ''relative overflow-hidden relative h-[--image-height] col-span-1 rounded-lg''),
               (''children'', Element ''Image''
                  [(''ref'', Null),
                   (''to'', Str ''/products''),
                   (''className'',
                      Str ''w-full h-full object-cover transition-transform duration-300 hover:scale-105''),
                   (''data-motion'', Str ''slide-in''),
                   (''loading'', Str ''lazy''),
                   (''data'', Obj [(''url'', Str ''a.jpg''), (''altText'', Str ''a.jpg'')]),
                   (''width'', Num 800),
                   (''height'', Num 600),
                   (''sizes'', Str ''(min-width: 45em) 50vw, 100vw'')])],
            Undefined])])"
  by (simp add: image_schema_names ImageGalleryItem_def ImageGalleryItem_params_def obj_get_def
      obj_rest_def image_config_def obj_spread_def normalize_src_def caption_def
      container_className_defaults Let_def)

section \<open>The grouped layout on seven children\<close>

text \<open>
  C7. Seven children and \<open>gap = 24\<close>: the root element's class is the base classes followed
  by \<open>gap-6\<close>, and its three tracks hold the children at positions 0, 3, 6, then 1, 4,
  then 2, 5.
\<close>

theorem C7_seven_children_gap_24:
  "TestimonialsItems
     [(''gap'', Num 24), (''children'', Arr [c0, c1, c2, c3, c4, c5, c6])] ref =
   Inr (Element ''div''
     [(''ref'', ref),
      (''className'', Str ''grid lg:grid-cols-3 gap-6''),
      (''children'', Arr
         [Element ''div'' [(''className'', Str ''space-y-6''), (''children'', Arr [c0, c3, c6])],
          Element ''div'' [(''className'', Str ''space-y-6''), (''children'', Arr [c1, c4])],
          Element ''div'' [(''className'', Str ''space-y-6''), (''children'', Arr [c2, c5])]])])"
  by (simp add: TestimonialsItems_def TestimonialsItems_params_def obj_get_def obj_rest_def
      obj_spread_def track_div_def array_filter_def items_variants_def cva_def
      getVariantClassName_def clsx_def items_gap_table_def NumberToString_keys)

end
